theory Spec2Isabelle
  imports Complex_Main
begin

section \<open>JavaScript values\<close>

text \<open>
  The scoring route is TypeScript running on a JavaScript engine. A string is a sequence
  of UTF-16 code units, so \<open>text.length\<close> is the length of the list below.
  ASCII literals of the source are written \<open>lit ''...''\<close>.
\<close>

type_synonym jsstring = "nat list"

abbreviation (input) lit :: "string \<Rightarrow> jsstring" where
  "lit s \<equiv> map of_char s"

text \<open>
  A number is NaN, an infinity or a finite value.
\<close>

datatype jsnum = NaN | NegInf | Fin real | PosInf

subsection \<open>Arithmetic on finite numbers\<close>

text \<open>
  A finite number is a binary64 value, an integer of at most 53 bits times a power of
  two, and every arithmetic operation of the source yields the exact result rounded to
  the nearest such value, a tie going to the even significand. \<open>round_even\<close> rounds to
  the nearest integer in that way, \<open>ulp x\<close> is the distance between neighbouring values
  at the magnitude of \<open>x\<close>, and \<open>double x\<close> is \<open>x\<close> rounded. The range of exponents is
  not bounded here: the overflow to an infinity from \<open>2 ^ 1024\<close> on and the coarser
  values below \<open>1 / 2 ^ 1022\<close> are left out.
\<close>

definition round_even :: "real \<Rightarrow> int" where
  "round_even y =
     (let f = \<lfloor>y\<rfloor>; d = y - of_int f
      in if d < 1 / 2 then f else if 1 / 2 < d then f + 1 else if even f then f else f + 1)"

definition ulp :: "real \<Rightarrow> real" where
  "ulp x = 2 powi (\<lfloor>log 2 \<bar>x\<bar>\<rfloor> - 52)"

definition double :: "real \<Rightarrow> real" where
  "double x = (if x = 0 then 0 else of_int (round_even (x / ulp x)) * ulp x)"

text \<open>
  The operators \<open>+\<close>, \<open>-\<close>, \<open>*\<close> and \<open>/\<close> of the source on finite numbers. A decimal
  literal of the source is the binary64 value nearest to it: \<open>0.3\<close> is \<open>double 0.3\<close>.
  An integer literal, \<open>0.5\<close>, \<open>0.25\<close> and \<open>1.5\<close> are such values themselves and are
  written as they are, as is the length of a string or of an array, an integer below
  \<open>2 ^ 53\<close>.
\<close>

definition fadd :: "real \<Rightarrow> real \<Rightarrow> real" where
  "fadd x y = double (x + y)"

definition fsub :: "real \<Rightarrow> real \<Rightarrow> real" where
  "fsub x y = double (x - y)"

definition fmul :: "real \<Rightarrow> real \<Rightarrow> real" where
  "fmul x y = double (x * y)"

definition fdiv :: "real \<Rightarrow> real \<Rightarrow> real" where
  "fdiv x y = double (x / y)"

text \<open>
  \<open>Math.sqrt\<close> rounds the exact root. \<open>Math.pow(x, 2)\<close>, the only power the source
  takes, is the rounded square.
\<close>

definition Math_sqrt :: "real \<Rightarrow> real" where
  "Math_sqrt x = double (sqrt x)"

definition Math_pow2 :: "real \<Rightarrow> real" where
  "Math_pow2 x = fmul x x"

text \<open>
  A value as \<open>JSON.parse\<close> or \<open>response.json()\<close> delivers it, together with
  \<open>undefined\<close>, which reading an absent member yields.
\<close>

datatype jsval =
    Undefined
  | Null
  | Boolean bool
  | Number jsnum
  | String jsstring
  | Array "jsval list"
  | Object "(string \<times> jsval) list"

text \<open>An awaited call or an expression either throws or yields a value.\<close>

datatype 'a attempt = Threw | Returned 'a

text \<open>
  Built-ins of the engine that this development does not define: they are taken as
  they come, in a record handed to every function that calls one.
\<close>

record runtime =
  toLowerCase :: "jsstring \<Rightarrow> jsstring"
  StringToNumber :: "jsstring \<Rightarrow> jsnum"
  JSON_parse :: "jsstring \<Rightarrow> jsval attempt"

subsection \<open>Coercions and the Math object\<close>

text \<open>Truthiness, as \<open>if (v)\<close> and \<open>v || w\<close> test it.\<close>

fun truthy :: "jsval \<Rightarrow> bool" where
  "truthy Undefined = False"
| "truthy Null = False"
| "truthy (Boolean b) = b"
| "truthy (Number NaN) = False"
| "truthy (Number (Fin r)) = (r \<noteq> 0)"
| "truthy (Number _) = True"
| "truthy (String s) = (s \<noteq> [])"
| "truthy (Array _) = True"
| "truthy (Object _) = True"

text \<open>
  ToNumber, which \<open>Math.min\<close> and \<open>Math.max\<close> apply to each argument. An array is
  first turned into a string by joining its elements with commas: the empty array gives
  the empty string (0), a single element the string of that element, and two or more
  elements a string with a comma, which is no number. A plain object gives
  \<open>[object Object]\<close>, which is no number.
\<close>

fun ToNumber :: "runtime \<Rightarrow> jsval \<Rightarrow> jsnum" where
  "ToNumber rt Undefined = NaN"
| "ToNumber rt Null = Fin 0"
| "ToNumber rt (Boolean b) = Fin (if b then 1 else 0)"
| "ToNumber rt (Number n) = n"
| "ToNumber rt (String s) = StringToNumber rt s"
| "ToNumber rt (Object _) = NaN"
| "ToNumber rt (Array []) = Fin 0"
| "ToNumber rt (Array [Undefined]) = Fin 0"
| "ToNumber rt (Array [Null]) = Fin 0"
| "ToNumber rt (Array [Boolean b]) = NaN"
| "ToNumber rt (Array [v]) = ToNumber rt v"
| "ToNumber rt (Array (v # w # vs)) = NaN"

fun Math_min :: "jsnum \<Rightarrow> jsnum \<Rightarrow> jsnum" where
  "Math_min NaN _ = NaN"
| "Math_min _ NaN = NaN"
| "Math_min NegInf _ = NegInf"
| "Math_min _ NegInf = NegInf"
| "Math_min PosInf y = y"
| "Math_min x PosInf = x"
| "Math_min (Fin a) (Fin b) = Fin (min a b)"

fun Math_max :: "jsnum \<Rightarrow> jsnum \<Rightarrow> jsnum" where
  "Math_max NaN _ = NaN"
| "Math_max _ NaN = NaN"
| "Math_max PosInf _ = PosInf"
| "Math_max _ PosInf = PosInf"
| "Math_max NegInf y = y"
| "Math_max x NegInf = x"
| "Math_max (Fin a) (Fin b) = Fin (max a b)"

text \<open>
  \<open>Math.round\<close> on a finite number: the nearest integer, a half rounding up. The result
  is exact.
\<close>

definition Math_round :: "real \<Rightarrow> int" where
  "Math_round x = \<lfloor>x + 1 / 2\<rfloor>"

text \<open>
  Reading a member: \<open>v.k\<close> throws a TypeError on \<open>null\<close> and \<open>undefined\<close>, finds the
  member of an object and is \<open>undefined\<close> on an object without it. The members read
  in this file (\<open>iqScore\<close>, \<open>choices\<close>, \<open>score\<close>, ...) exist on no primitive and no array.
\<close>

fun get_member :: "jsval \<Rightarrow> string \<Rightarrow> jsval attempt" where
  "get_member Undefined k = Threw"
| "get_member Null k = Threw"
| "get_member (Object ms) k = Returned (case map_of ms k of None \<Rightarrow> Undefined | Some v \<Rightarrow> v)"
| "get_member _ k = Returned Undefined"

text \<open>Optional chaining \<open>v?.k\<close>: \<open>undefined\<close> where \<open>v.k\<close> would throw.\<close>

definition opt_member :: "jsval \<Rightarrow> string \<Rightarrow> jsval" where
  "opt_member v k = (case get_member v k of Threw \<Rightarrow> Undefined | Returned w \<Rightarrow> w)"

text \<open>
  Element 0: \<open>v[0]\<close> throws on \<open>null\<close> and \<open>undefined\<close>; it is the first element of
  an array, the first code unit of a string, the member \<open>0\<close> of an object.
\<close>

fun get_first :: "jsval \<Rightarrow> jsval attempt" where
  "get_first Undefined = Threw"
| "get_first Null = Threw"
| "get_first (Array []) = Returned Undefined"
| "get_first (Array (v # vs)) = Returned v"
| "get_first (String []) = Returned Undefined"
| "get_first (String (c # cs)) = Returned (String [c])"
| "get_first (Object ms) = Returned (case map_of ms ''0'' of None \<Rightarrow> Undefined | Some v \<Rightarrow> v)"
| "get_first _ = Returned Undefined"

definition opt_first :: "jsval \<Rightarrow> jsval" where
  "opt_first v = (case get_first v of Threw \<Rightarrow> Undefined | Returned w \<Rightarrow> w)"

section \<open>Strings and the regular expressions of the source\<close>

abbreviation (input) code :: "char \<Rightarrow> nat" where
  "code c \<equiv> of_char c"

text \<open>
  The class \<open>\s\<close> (also what \<open>trim\<close> removes): tab, line feed, vertical tab, form
  feed, carriage return, space, no-break space, U+1680, U+2000 to U+200A, the line and
  paragraph separators, U+202F, U+205F, U+3000 and U+FEFF.
\<close>

definition is_space :: "nat \<Rightarrow> bool" where
  "is_space c = (c = 9 \<or> c = 10 \<or> c = 11 \<or> c = 12 \<or> c = 13 \<or> c = 32 \<or> c = 160
     \<or> c = 5760 \<or> (8192 \<le> c \<and> c \<le> 8202) \<or> c = 8232 \<or> c = 8233 \<or> c = 8239
     \<or> c = 8287 \<or> c = 12288 \<or> c = 65279)"

text \<open>The class \<open>\w\<close>: an ASCII letter, a digit or the underscore.\<close>

definition is_word :: "nat \<Rightarrow> bool" where
  "is_word c = ((48 \<le> c \<and> c \<le> 57) \<or> (65 \<le> c \<and> c \<le> 90) \<or> c = 95 \<or> (97 \<le> c \<and> c \<le> 122))"

definition is_upper :: "nat \<Rightarrow> bool" where
  "is_upper c = (65 \<le> c \<and> c \<le> 90)"

text \<open>The class \<open>[.!?]\<close> that ends a sentence.\<close>

definition is_stop :: "nat \<Rightarrow> bool" where
  "is_stop c = (c = code CHR ''.'' \<or> c = code CHR ''!'' \<or> c = code CHR ''?'')"

text \<open>\<open>xs.join(sep)\<close>.\<close>

fun join :: "jsstring \<Rightarrow> jsstring list \<Rightarrow> jsstring" where
  "join sep [] = []"
| "join sep [x] = x"
| "join sep (x # y # ys) = x @ sep @ join sep (y # ys)"

text \<open>
  \<open>s.split(/[class]+/)\<close>: the pieces between the maximal runs of separators. A
  separator at either end leaves an empty piece there, and the empty string splits into
  one empty piece. \<open>cur\<close> is the piece being read.
\<close>

fun split_runs :: "(nat \<Rightarrow> bool) \<Rightarrow> jsstring \<Rightarrow> jsstring \<Rightarrow> jsstring list" where
  "split_runs sep cur [] = [cur]"
| "split_runs sep cur [c] = (if sep c then [cur, []] else [cur @ [c]])"
| "split_runs sep cur (c # d # cs) =
     (if sep c then (if sep d then split_runs sep cur (d # cs) else cur # split_runs sep [] (d # cs))
      else split_runs sep (cur @ [c]) (d # cs))"

definition trim :: "jsstring \<Rightarrow> jsstring" where
  "trim s = rev (dropWhile is_space (rev (dropWhile is_space s)))"

text \<open>What is left of \<open>s\<close> after the literal \<open>p\<close>, if \<open>s\<close> starts with it.\<close>

fun strip_literal :: "jsstring \<Rightarrow> jsstring \<Rightarrow> jsstring option" where
  "strip_literal [] s = Some s"
| "strip_literal (p # ps) [] = None"
| "strip_literal (p # ps) (c # cs) = (if p = c then strip_literal ps cs else None)"

text \<open>\<open>re.test(s)\<close> for an unanchored expression: a match starts at some position.\<close>

fun test_anywhere :: "(jsstring \<Rightarrow> bool) \<Rightarrow> jsstring \<Rightarrow> bool" where
  "test_anywhere m [] = m []"
| "test_anywhere m (c # cs) = (m (c # cs) \<or> test_anywhere m cs)"

text \<open>
  \<open>/https?:\/\/[^\s]+/\<close> at the start of \<open>s\<close>. The optional \<open>s\<close> is taken when
  it is there; giving it back could not help, since \<open>:\<close> would then have to match it.
\<close>

definition link_at :: "jsstring \<Rightarrow> bool" where
  "link_at s =
     (case strip_literal (lit ''http'') s of
        None \<Rightarrow> False
      | Some r \<Rightarrow>
          (case strip_literal (lit ''://'')
                  (case r of [] \<Rightarrow> r | c # cs \<Rightarrow> if c = code CHR ''s'' then cs else r) of
             None \<Rightarrow> False
           | Some q \<Rightarrow> (case q of [] \<Rightarrow> False | d # _ \<Rightarrow> \<not> is_space d)))"

text \<open>\<open>/@\w+/\<close> and \<open>/#\w+/\<close> at the start of \<open>s\<close>: the sign, then a word character.\<close>

fun sign_word_at :: "nat \<Rightarrow> jsstring \<Rightarrow> bool" where
  "sign_word_at sign (a # w # _) = (a = sign \<and> is_word w)"
| "sign_word_at sign _ = False"

text \<open>
  \<open>(s.match(/(k1|k2|...)/g) || []).length\<close>: the scan tries the alternatives in their
  order at each position, takes the first that matches and goes on behind it; where none
  matches it moves one code unit on. \<open>skip\<close> counts the code units of the last match
  still to pass. Every alternative of the source is a non-empty literal.
\<close>

fun match_count :: "jsstring list \<Rightarrow> nat \<Rightarrow> jsstring \<Rightarrow> nat" where
  "match_count alts skip [] = 0"
| "match_count alts (Suc k) (c # cs) = match_count alts k cs"
| "match_count alts 0 (c # cs) =
     (case find (\<lambda>a. strip_literal a (c # cs) \<noteq> None) alts of
        None \<Rightarrow> match_count alts 0 cs
      | Some a \<Rightarrow> Suc (match_count alts (length a - 1) cs))"

section \<open>Posts and the feature extractors\<close>

text \<open>
  \<open>NeynarCast\<close>, with \<open>reactions.likes_count\<close>, \<open>reactions.recasts_count\<close> and
  \<open>replies.count\<close> as fields of the post itself (\<open>text\<close> is \<open>cast_text\<close>). The counts are the non-negative
  integers the feed delivers.
\<close>

record NeynarCast =
  cast_text :: jsstring
  timestamp :: jsstring
  likes_count :: nat
  recasts_count :: nat
  replies_count :: nat

text \<open>
  A count as the program reads it: the number that parsing the feed's JSON gives, the
  binary64 value nearest to the integer.
\<close>

definition likes :: "NeynarCast \<Rightarrow> real" where
  "likes cast = double (real (likes_count cast))"

definition recasts :: "NeynarCast \<Rightarrow> real" where
  "recasts cast = double (real (recasts_count cast))"

definition replies :: "NeynarCast \<Rightarrow> real" where
  "replies cast = double (real (replies_count cast))"

text \<open>
  \<open>casts.filter(p).length / casts.length\<close>. The extractors are run on at least one
  post, the route answering an empty feed before the analysis, so that the divisor is
  positive.
\<close>

definition ratio :: "(NeynarCast \<Rightarrow> bool) \<Rightarrow> NeynarCast list \<Rightarrow> real" where
  "ratio p casts = fdiv (real (length (filter p casts))) (real (length casts))"

text \<open>
  The indicators of \<open>analyzeContentQuality\<close>. The source also computes \<open>hasEmojis\<close>,
  which only the prompt sent to the providers quotes; it is left out here.
\<close>

record content_quality =
  avgLength :: real
  longPostRatio :: real
  shortPostRatio :: real
  hasLinks :: real
  hasMentions :: real
  hasHashtags :: real
  hasQuestions :: real
  hasExclamations :: real

definition analyzeContentQuality :: "NeynarCast list \<Rightarrow> content_quality" where
  "analyzeContentQuality casts =
     (let totalChars = foldl (\<lambda>sum cast. fadd sum (real (length (cast_text cast)))) 0 casts in
      \<lparr> avgLength = fdiv totalChars (real (length casts)),
        longPostRatio = ratio (\<lambda>cast. length (cast_text cast) > 100) casts,
        shortPostRatio = ratio (\<lambda>cast. length (cast_text cast) < 50) casts,
        hasLinks = ratio (\<lambda>cast. test_anywhere link_at (cast_text cast)) casts,
        hasMentions = ratio (\<lambda>cast. test_anywhere (sign_word_at (code CHR ''@'')) (cast_text cast)) casts,
        hasHashtags = ratio (\<lambda>cast. test_anywhere (sign_word_at (code CHR ''#'')) (cast_text cast)) casts,
        hasQuestions = ratio (\<lambda>cast. code CHR ''?'' \<in> set (cast_text cast)) casts,
        hasExclamations = ratio (\<lambda>cast. code CHR ''!'' \<in> set (cast_text cast)) casts \<rparr>)"

text \<open>\<open>likes_count + recasts_count + replies.count\<close> of one post, added from the left.\<close>

definition interactions :: "NeynarCast \<Rightarrow> real" where
  "interactions cast = fadd (fadd (likes cast) (recasts cast)) (replies cast)"

definition calculateConsistencyScore :: "NeynarCast list \<Rightarrow> real" where
  "calculateConsistencyScore casts =
     (if length casts < 2 then 0
      else
        let engagementRates = map interactions casts;
            mean = fdiv (foldl (\<lambda>sum rate. fadd sum rate) 0 engagementRates)
                     (real (length engagementRates));
            variance = fdiv (foldl (\<lambda>sum rate. fadd sum (Math_pow2 (fsub rate mean))) 0 engagementRates)
                         (real (length engagementRates));
            stdDev = Math_sqrt variance
        in max 0 (fsub 100 (fmul (fdiv stdDev (max mean 1)) 50)))"

record engagement_metrics =
  totalEngagement :: real
  engagementPerPost :: real
  highEngagementRatio :: real
  viralPostRatio :: real
  consistencyScore :: real

definition calculateEngagementMetrics :: "NeynarCast list \<Rightarrow> engagement_metrics" where
  "calculateEngagementMetrics casts =
     (let total = foldl (\<lambda>sum cast. fadd (fadd (fadd sum (likes cast)) (recasts cast)) (replies cast))
                    0 casts in
      \<lparr> totalEngagement = total,
        engagementPerPost = fdiv total (real (length casts)),
        highEngagementRatio = ratio (\<lambda>cast. interactions cast > 10) casts,
        viralPostRatio = ratio (\<lambda>cast. fadd (likes cast) (recasts cast) > 50) casts,
        consistencyScore = calculateConsistencyScore casts \<rparr>)"

record writing_style =
  avgWordsPerSentence :: real
  avgWordLength :: real
  vocabularyRatio :: real
  properCapitalization :: real
  totalWords :: nat
  uniqueWordsCount :: nat

definition analyzeWritingStyle :: "runtime \<Rightarrow> NeynarCast list \<Rightarrow> writing_style" where
  "analyzeWritingStyle rt casts =
     (let allText = join (lit '' '') (map cast_text casts);
          words = filter (\<lambda>word. length word > 0) (split_runs is_space [] allText);
          sentences = filter (\<lambda>sentence. length (trim sentence) > 0) (split_runs is_stop [] allText);
          uniqueWords = remdups (map (\<lambda>word. filter is_word (toLowerCase rt word)) words)
      in
      \<lparr> avgWordsPerSentence = fdiv (real (length words)) (real (max (length sentences) 1)),
        avgWordLength = fdiv (foldl (\<lambda>sum word. fadd sum (real (length word))) 0 words)
                          (real (max (length words) 1)),
        vocabularyRatio = fdiv (real (length uniqueWords)) (real (max (length words) 1)),
        properCapitalization =
          fdiv (real (length (filter (\<lambda>sentence. case trim sentence of [] \<Rightarrow> False | c # _ \<Rightarrow> is_upper c)
                          sentences)))
            (real (max (length sentences) 1)),
        totalWords = length words,
        uniqueWordsCount = length uniqueWords \<rparr>)"

text \<open>
  The eight topic expressions of \<open>analyzeTopicDiversity\<close>, in the order the object
  literal declares them; each is an alternation of literals. Three alternatives of
  \<open>humor\<close> are emoji, each a surrogate pair of two code units.
\<close>

definition topics :: "(string \<times> jsstring list) list" where
  "topics =
    [(''tech'', [lit ''ai'', lit ''artificial intelligence'', lit ''machine learning'',
        lit ''blockchain'', lit ''crypto'', lit ''web3'', lit ''programming'', lit ''code'',
        lit ''software'', lit ''tech'', lit ''technology'', lit ''startup'', lit ''entrepreneur'']),
     (''finance'', [lit ''money'', lit ''finance'', lit ''investment'', lit ''trading'',
        lit ''stock'', lit ''market'', lit ''economy'', lit ''financial'', lit ''wealth'',
        lit ''profit'', lit ''loss'', lit ''portfolio'']),
     (''politics'', [lit ''politics'', lit ''government'', lit ''policy'', lit ''election'',
        lit ''vote'', lit ''democrat'', lit ''republican'', lit ''liberal'', lit ''conservative'',
        lit ''political'']),
     (''culture'', [lit ''culture'', lit ''art'', lit ''music'', lit ''film'', lit ''movie'',
        lit ''book'', lit ''literature'', lit ''poetry'', lit ''creative'', lit ''design'',
        lit ''fashion'', lit ''style'']),
     (''sports'', [lit ''sports'', lit ''football'', lit ''basketball'', lit ''soccer'',
        lit ''baseball'', lit ''game'', lit ''team'', lit ''player'', lit ''championship'',
        lit ''league'']),
     (''humor'', [lit ''funny'', lit ''joke'', lit ''humor'', lit ''comedy'', lit ''lol'',
        lit ''haha'', [55357, 56834], [55357, 56836], [55357, 56838], lit ''laugh'',
        lit ''hilarious'']),
     (''philosophy'', [lit ''philosophy'', lit ''meaning'', lit ''purpose'', lit ''existence'',
        lit ''truth'', lit ''reality'', lit ''consciousness'', lit ''mind'', lit ''thought'',
        lit ''wisdom'']),
     (''science'', [lit ''science'', lit ''research'', lit ''study'', lit ''experiment'',
        lit ''data'', lit ''analysis'', lit ''scientific'', lit ''discovery'', lit ''theory'',
        lit ''hypothesis''])]"

text \<open>
  \<open>xs.reduce(f)\<close> without an initial value: a TypeError on the empty array, otherwise
  the fold from the left that starts with the first element.
\<close>

fun reduce :: "('a \<Rightarrow> 'a \<Rightarrow> 'a) \<Rightarrow> 'a list \<Rightarrow> 'a attempt" where
  "reduce f [] = Threw"
| "reduce f (x # xs) = Returned (foldl f x xs)"

text \<open>The callback \<open>(a, b) => a[1] > b[1] ? a : b\<close>.\<close>

definition keep_greater :: "string \<times> nat \<Rightarrow> string \<times> nat \<Rightarrow> string \<times> nat" where
  "keep_greater a b = (if snd a > snd b then a else b)"

record topic_diversity =
  topicCounts :: "(string \<times> nat) list"
  totalTopicMatches :: nat
  activeTopics :: nat
  diversityScore :: real
  primaryTopic :: string

definition analyzeTopicDiversity :: "runtime \<Rightarrow> NeynarCast list \<Rightarrow> topic_diversity attempt" where
  "analyzeTopicDiversity rt casts =
     (let allText = toLowerCase rt (join (lit '' '') (map cast_text casts));
          counts = map (\<lambda>(topic, alts). (topic, match_count alts 0 allText)) topics;
          active = length (filter (\<lambda>count. count > 0) (map snd counts))
      in
      case reduce keep_greater counts of
        Threw \<Rightarrow> Threw
      | Returned best \<Rightarrow>
          Returned
            \<lparr> topicCounts = counts,
              totalTopicMatches = sum_list (map snd counts),
              activeTopics = active,
              diversityScore = min 100 (fmul (fdiv (real active) (real (length topics))) 100),
              primaryTopic = fst best \<rparr>)"

text \<open>
  The primary topic as the specification words it: the category with the highest count,
  the first one declared among those that reach it.
\<close>

definition highest_count :: "(string \<times> nat) list \<Rightarrow> nat" where
  "highest_count counts = fold max (map snd counts) 0"

definition first_highest :: "(string \<times> nat) list \<Rightarrow> string option" where
  "first_highest counts =
     map_option fst (find (\<lambda>entry. snd entry = highest_count counts) counts)"

text \<open>The same with the other tie-break: the last one declared among those that reach it.\<close>

definition last_highest :: "(string \<times> nat) list \<Rightarrow> string option" where
  "last_highest counts =
     map_option fst (find (\<lambda>entry. snd entry = highest_count counts) (rev counts))"

section \<open>The analysis stage\<close>

text \<open>
  A verified account (\<open>handle\<close> is the member \<open>username\<close> of the source) and the
  argument of \<open>analyzeWithAI\<close>; an optional member is an \<open>option\<close>.
\<close>

record VerifiedAccount =
  platform :: jsstring
  handle :: jsstring

record user_data =
  username :: "jsstring option"
  displayName :: "jsstring option"
  casts :: "NeynarCast list"
  verifiedAccounts :: "VerifiedAccount list option"

text \<open>
  What \<open>await fetch(...)\<close> yields when it does not throw: the flag \<open>ok\<close> and the
  body, which \<open>await response.json()\<close> delivers or fails to deliver.
\<close>

record 'a http =
  ok :: bool
  json :: "'a attempt"

text \<open>
  Everything outside the function that one call of \<open>analyzeWithAI\<close> depends on: the
  answer of the external score service for a handle, the two credentials of
  \<open>process.env\<close> and the answers of the two providers, and the values of
  \<open>Math.random()\<close> in the heuristic and in the last fallback. \<open>heuristic_fault\<close>
  says that the statements of the heuristic (after both provider blocks, inside the
  outer \<open>try\<close>) throw.
\<close>

record analysis_env =
  iq_checker :: "jsstring \<Rightarrow> jsval http attempt"
  OPENAI_API_KEY :: "jsstring option"
  openai :: "jsval http attempt"
  GEMINI_API_KEY :: "jsstring option"
  gemini :: "jsval http attempt"
  random_heuristic :: real
  random_degraded :: real
  heuristic_fault :: bool

text \<open>
  The analysis text is kept as the template that produced it together with the values
  the template interpolates, not as the rendered string.
\<close>

record heuristic_report =
  postCount :: nat
  comprehensive :: real
  contentQuality :: real
  reportAvgLength :: real
  reportHasQuestions :: real
  writingStyle :: real
  reportVocabularyRatio :: real
  engagement :: real
  reportConsistency :: real
  topicDiversityValue :: real
  reportActiveTopics :: nat
  reportPrimaryTopic :: string
  reportFinalScore :: int

datatype analysis_text =
    XAccountText jsstring
  | ProviderText jsval
  | HeuristicText heuristic_report
  | FallbackText nat real real

record analysis_result =
  score :: jsnum
  analysis :: analysis_text
  confidence :: jsnum

text \<open>The calls that leave the process, logged in the order they are made.\<close>

datatype call =
    CallHasRecentIQScore
  | CallGetIQScore
  | CallGetUser
  | CallFetchUserData
  | CallFetchUserCasts
  | CallIqChecker
  | CallOpenAI
  | CallGemini
  | CallSaveIQScore

subsection \<open>The external score of a verified X account\<close>

definition external_iq :: "runtime \<Rightarrow> analysis_env \<Rightarrow> user_data
    \<Rightarrow> analysis_result option \<times> call list" where
  "external_iq rt env userData =
     (case (case verifiedAccounts userData of
              None \<Rightarrow> None
            | Some accounts \<Rightarrow> find (\<lambda>account. platform account = lit ''x'') accounts) of
        None \<Rightarrow> (None, [])
      | Some xAccount \<Rightarrow>
          if handle xAccount = [] then (None, [])
          else
            (case iq_checker env (handle xAccount) of
               Threw \<Rightarrow> None
             | Returned externalResponse \<Rightarrow>
                 if ok externalResponse then
                   (case json externalResponse of
                      Threw \<Rightarrow> None
                    | Returned externalData \<Rightarrow>
                        (case get_member externalData ''iqScore'' of
                           Threw \<Rightarrow> None
                         | Returned iqScore \<Rightarrow>
                             if truthy iqScore then
                               Some \<lparr> score = Math_max (Fin 55) (Math_min (Fin 145) (ToNumber rt iqScore)),
                                      analysis = XAccountText (handle xAccount),
                                      confidence = Fin 85 \<rparr>
                             else None))
                 else None,
             [CallIqChecker]))"

subsection \<open>The two providers\<close>

text \<open>
  \<open>content.match(/\{[\s\S]*\}/)\<close>: from the first opening brace to the last closing
  brace behind it; no match when there is no such pair.
\<close>

definition brace_match :: "jsstring \<Rightarrow> jsstring option" where
  "brace_match s =
     (case dropWhile (\<lambda>c. c \<noteq> code CHR ''{'') s of
        [] \<Rightarrow> None
      | b # rest \<Rightarrow>
          (case rev (dropWhile (\<lambda>c. c \<noteq> code CHR ''}'') (rev rest)) of
             [] \<Rightarrow> None
           | r # rs \<Rightarrow> Some (b # r # rs)))"

text \<open>
  The block \<open>if (content) { try { ... } catch (parseError) { } }\<close>, the same for both
  providers. A content that is not a string has no \<open>match\<close> to call, a TypeError that
  the \<open>catch\<close> takes, as it takes a failing \<open>JSON.parse\<close>.
\<close>

definition from_content :: "runtime \<Rightarrow> jsval \<Rightarrow> analysis_result option" where
  "from_content rt content =
     (if truthy content then
        (case content of
           String s \<Rightarrow>
             (case brace_match s of
                None \<Rightarrow> None
              | Some jsonMatch \<Rightarrow>
                  (case JSON_parse rt jsonMatch of
                     Threw \<Rightarrow> None
                   | Returned parsed \<Rightarrow>
                       (case (get_member parsed ''score'', get_member parsed ''analysis'',
                              get_member parsed ''confidence'') of
                          (Returned parsed_score, Returned parsed_analysis, Returned parsed_confidence) \<Rightarrow>
                            Some \<lparr> score = Math_max (Fin 55) (Math_min (Fin 145) (ToNumber rt parsed_score)),
                                   analysis = ProviderText parsed_analysis,
                                   confidence = Math_max (Fin 0) (Math_min (Fin 100) (ToNumber rt parsed_confidence)) \<rparr>
                        | _ \<Rightarrow> None)))
         | _ \<Rightarrow> None)
      else None)"

text \<open>\<open>openaiData.choices[0]?.message?.content\<close>.\<close>

definition openai_content :: "jsval \<Rightarrow> jsval attempt" where
  "openai_content openaiData =
     (case get_member openaiData ''choices'' of
        Threw \<Rightarrow> Threw
      | Returned choices \<Rightarrow>
          (case get_first choices of
             Threw \<Rightarrow> Threw
           | Returned choice \<Rightarrow> Returned (opt_member (opt_member choice ''message'') ''content'')))"

text \<open>\<open>geminiData.candidates?.[0]?.content?.parts?.[0]?.text\<close>.\<close>

definition gemini_content :: "jsval \<Rightarrow> jsval attempt" where
  "gemini_content geminiData =
     (case get_member geminiData ''candidates'' of
        Threw \<Rightarrow> Threw
      | Returned candidates \<Rightarrow>
          Returned (opt_member (opt_first (opt_member (opt_member (opt_first candidates) ''content'') ''parts'')) ''text''))"

text \<open>
  One provider block: skipped without a credential (\<open>undefined\<close> or the empty
  string); otherwise one request, and whatever is thrown inside is caught by the block's
  own \<open>catch\<close>. \<open>None\<close> means that control goes on behind the block.
\<close>

definition provider_tier :: "runtime \<Rightarrow> jsstring option \<Rightarrow> jsval http attempt
    \<Rightarrow> (jsval \<Rightarrow> jsval attempt) \<Rightarrow> call \<Rightarrow> analysis_result option \<times> call list" where
  "provider_tier rt apiKey reply content_of c =
     (if apiKey \<noteq> None \<and> apiKey \<noteq> Some [] then
        (case reply of
           Threw \<Rightarrow> None
         | Returned response \<Rightarrow>
             if ok response then
               (case json response of
                  Threw \<Rightarrow> None
                | Returned data \<Rightarrow>
                    (case content_of data of
                       Threw \<Rightarrow> None
                     | Returned content \<Rightarrow> from_content rt content))
             else None,
         [c])
      else (None, []))"

definition openai_tier :: "runtime \<Rightarrow> analysis_env \<Rightarrow> analysis_result option \<times> call list" where
  "openai_tier rt env = provider_tier rt (OPENAI_API_KEY env) (openai env) openai_content CallOpenAI"

definition gemini_tier :: "runtime \<Rightarrow> analysis_env \<Rightarrow> analysis_result option \<times> call list" where
  "gemini_tier rt env = provider_tier rt (GEMINI_API_KEY env) (gemini env) gemini_content CallGemini"

subsection \<open>The local heuristic and the last fallback\<close>

definition contentQualityScore :: "content_quality \<Rightarrow> real" where
  "contentQualityScore contentAnalysis =
     min 100
       (fadd (fadd (fadd (fadd (fmul (avgLength contentAnalysis) (double 0.3))
                               (fmul (longPostRatio contentAnalysis) 50))
                         (fmul (hasQuestions contentAnalysis) 30))
                   (fmul (hasLinks contentAnalysis) 20))
             (fmul (hasMentions contentAnalysis) 15))"

definition writingStyleScore :: "writing_style \<Rightarrow> real" where
  "writingStyleScore writingStyleAnalysis =
     min 100
       (fadd (fadd (fadd (fmul (vocabularyRatio writingStyleAnalysis) 40)
                         (fmul (avgWordsPerSentence writingStyleAnalysis) 2))
                   (fmul (properCapitalization writingStyleAnalysis) 30))
             (fmul (avgWordLength writingStyleAnalysis) 3))"

definition engagementScore :: "engagement_metrics \<Rightarrow> real" where
  "engagementScore engagementMetrics =
     min 100
       (fadd (fadd (fmul (engagementPerPost engagementMetrics) 0.5)
                   (fmul (consistencyScore engagementMetrics) (double 0.3)))
             (fmul (viralPostRatio engagementMetrics) 50))"

definition comprehensiveScore :: "content_quality \<Rightarrow> writing_style \<Rightarrow> engagement_metrics
    \<Rightarrow> topic_diversity \<Rightarrow> real" where
  "comprehensiveScore contentAnalysis writingStyleAnalysis engagementMetrics topicDiversity =
     fadd (fadd (fadd (fmul (contentQualityScore contentAnalysis) 0.25)
                      (fmul (writingStyleScore writingStyleAnalysis) 0.25))
                (fmul (engagementScore engagementMetrics) 0.25))
          (fmul (diversityScore topicDiversity) 0.25)"

text \<open>
  The statements from \<open>contentQualityScore\<close> to the \<open>return\<close> of the heuristic;
  \<open>rnd\<close> is the value of \<open>Math.random()\<close>.
\<close>

definition heuristic :: "real \<Rightarrow> NeynarCast list \<Rightarrow> content_quality \<Rightarrow> writing_style
    \<Rightarrow> engagement_metrics \<Rightarrow> topic_diversity \<Rightarrow> analysis_result" where
  "heuristic rnd posts contentAnalysis writingStyleAnalysis engagementMetrics topicDiversity =
     (let composite = comprehensiveScore contentAnalysis writingStyleAnalysis engagementMetrics topicDiversity;
          baseScore = fadd (fadd 70 (fmul composite (double 0.6)))
                        (fmul (real (length posts)) (double 0.2));
          randomFactor = fmul (fsub rnd 0.5) 15;
          finalScore = max 55 (min 145 (Math_round (fadd baseScore randomFactor)));
          conf = max 30 (min 85 (fadd (fadd 50 (fmul (real (length posts)) 2))
                                   (fmul composite (double 0.3))))
      in
      \<lparr> score = Fin (of_int finalScore),
        analysis = HeuristicText
          \<lparr> postCount = length posts,
            comprehensive = composite,
            contentQuality = contentQualityScore contentAnalysis,
            reportAvgLength = avgLength contentAnalysis,
            reportHasQuestions = hasQuestions contentAnalysis,
            writingStyle = writingStyleScore writingStyleAnalysis,
            reportVocabularyRatio = vocabularyRatio writingStyleAnalysis,
            engagement = engagementScore engagementMetrics,
            reportConsistency = consistencyScore engagementMetrics,
            topicDiversityValue = diversityScore topicDiversity,
            reportActiveTopics = activeTopics topicDiversity,
            reportPrimaryTopic = primaryTopic topicDiversity,
            reportFinalScore = finalScore \<rparr>,
        confidence = Fin (of_int (Math_round conf)) \<rparr>)"

text \<open>The outer \<open>catch\<close>: a score around 85 and a confidence from the number of posts.\<close>

definition degraded :: "real \<Rightarrow> NeynarCast list \<Rightarrow> analysis_result" where
  "degraded rnd posts =
     (let totalLikes = foldl (\<lambda>sum cast. fadd sum (likes cast)) 0 posts;
          avgLikesPerCast = fdiv totalLikes (real (max (length posts) 1));
          fallbackScore = max 55 (min 145 (fadd 85 (fmul (fsub rnd 0.5) 40)));
          fallbackConfidence = max 25 (min 60 (fadd 40 (fmul (real (length posts)) 1.5)))
      in
      \<lparr> score = Fin (of_int (Math_round fallbackScore)),
        analysis = FallbackText (length posts) avgLikesPerCast fallbackScore,
        confidence = Fin (of_int (Math_round fallbackConfidence)) \<rparr>)"

subsection \<open>\<open>analyzeWithAI\<close>\<close>

text \<open>
  The body of the outer \<open>try\<close>: the first provider, then the second, then the
  heuristic. \<open>Threw\<close> is an exception that none of the inner blocks caught.
\<close>

definition try_block :: "runtime \<Rightarrow> analysis_env \<Rightarrow> NeynarCast list \<Rightarrow> content_quality
    \<Rightarrow> writing_style \<Rightarrow> engagement_metrics \<Rightarrow> topic_diversity
    \<Rightarrow> analysis_result attempt \<times> call list" where
  "try_block rt env posts contentAnalysis writingStyleAnalysis engagementMetrics topicDiversity =
     (case openai_tier rt env of
        (Some result, calls) \<Rightarrow> (Returned result, calls)
      | (None, calls) \<Rightarrow>
          (case gemini_tier rt env of
             (Some result, calls') \<Rightarrow> (Returned result, calls @ calls')
           | (None, calls') \<Rightarrow>
               (if heuristic_fault env then Threw
                else Returned (heuristic (random_heuristic env) posts contentAnalysis
                       writingStyleAnalysis engagementMetrics topicDiversity),
                calls @ calls')))"

text \<open>
  The whole function. The four extractors run before the outer \<open>try\<close>, so an
  exception of theirs leaves \<open>analyzeWithAI\<close>; an exception of the \<open>try\<close> body
  ends in the last fallback.
\<close>

definition analyzeWithAI :: "runtime \<Rightarrow> analysis_env \<Rightarrow> user_data
    \<Rightarrow> analysis_result attempt \<times> call list" where
  "analyzeWithAI rt env userData =
     (case external_iq rt env userData of
        (Some result, calls) \<Rightarrow> (Returned result, calls)
      | (None, calls) \<Rightarrow>
          (let contentAnalysis = analyzeContentQuality (casts userData);
               engagementMetrics = calculateEngagementMetrics (casts userData);
               writingStyleAnalysis = analyzeWritingStyle rt (casts userData)
           in
           case analyzeTopicDiversity rt (casts userData) of
             Threw \<Rightarrow> (Threw, calls)
           | Returned topicDiversity \<Rightarrow>
               (case try_block rt env (casts userData) contentAnalysis writingStyleAnalysis
                       engagementMetrics topicDiversity of
                  (Returned result, calls') \<Rightarrow> (Returned result, calls @ calls')
                | (Threw, calls') \<Rightarrow>
                    (Returned (degraded (random_degraded env) (casts userData)), calls @ calls'))))"

section \<open>The route\<close>

text \<open>
  The store behind \<open>@/lib/mongodb\<close>: per account the saved score and the cached user
  document, of which the route reads \<open>verified_accounts\<close> only.
\<close>

record iq_entry =
  entry_score :: jsnum
  entry_analysis :: analysis_text
  entry_confidence :: jsnum
  analyzedAt :: int

record store =
  iq_scores :: "nat \<rightharpoonup> iq_entry"
  users :: "nat \<rightharpoonup> VerifiedAccount list option"

text \<open>
  Modelled from the spec: \<open>hasRecentIQScore\<close> of \<open>@/lib/mongodb\<close>, which is not among
  the sources. The stored result is valid iff its age is at most the threshold; times are
  in milliseconds, the threshold in days.
\<close>

definition hasRecentIQScore :: "store \<Rightarrow> int \<Rightarrow> nat \<Rightarrow> int \<Rightarrow> bool" where
  "hasRecentIQScore st now fid days =
     (case iq_scores st fid of
        None \<Rightarrow> False
      | Some entry \<Rightarrow> now - analyzedAt entry \<le> days * 86400000)"

text \<open>
  Modelled from the spec: \<open>getIQScoreFromDatabase\<close> of \<open>@/lib/mongodb\<close>, the read
  that yields the stored result or nothing.
\<close>

definition getIQScoreFromDatabase :: "store \<Rightarrow> nat \<Rightarrow> iq_entry option" where
  "getIQScoreFromDatabase st fid = iq_scores st fid"

text \<open>
  Modelled from the spec: \<open>getUserFromDatabaseByFid\<close> of \<open>@/lib/mongodb\<close>, the read
  of the cached account metadata.
\<close>

definition getUserFromDatabaseByFid :: "store \<Rightarrow> nat \<Rightarrow> VerifiedAccount list option option" where
  "getUserFromDatabaseByFid st fid = users st fid"

text \<open>
  Modelled from the spec: \<open>saveIQScoreToDatabase\<close> of \<open>@/lib/mongodb\<close>, the write of
  the result under the account, stamped with the current time.
\<close>

definition saveIQScoreToDatabase :: "store \<Rightarrow> int \<Rightarrow> nat \<Rightarrow> analysis_result \<Rightarrow> store" where
  "saveIQScoreToDatabase st now fid result =
     st\<lparr> iq_scores := (iq_scores st)(fid \<mapsto>
           \<lparr> entry_score = score result, entry_analysis = analysis result,
             entry_confidence = confidence result, analyzedAt = now \<rparr>) \<rparr>"

text \<open>
  The request: \<open>request.json()\<close> throws, or \<open>requestSchema.safeParse\<close> rejects
  the body, or it yields the four members.
\<close>

record request_data =
  fid :: nat
  request_username :: "jsstring option"
  request_displayName :: "jsstring option"
  request_verifiedAccounts :: "VerifiedAccount list option"

datatype request = Unreadable | Invalid | Valid request_data

text \<open>
  Everything outside the route that one call of \<open>POST\<close> depends on. The two feeds
  are the answers of the social network to \<open>fetchUserData\<close> and \<open>fetchUserCasts\<close>;
  their bodies are typed as the interfaces of the source type them, with \<open>None\<close> for an
  absent \<open>verified_accounts\<close> or \<open>casts\<close>. \<open>save_fails\<close> says that
  \<open>saveIQScoreToDatabase\<close> throws.
\<close>

record route_env =
  request :: request
  now :: int
  user_feed :: "VerifiedAccount list option http attempt"
  casts_feed :: "NeynarCast list option http attempt"
  world :: analysis_env
  save_fails :: bool

text \<open>
  \<open>fetchUserCasts\<close>: a response that is not \<open>ok\<close> throws inside the \<open>try\<close>, and
  the \<open>catch\<close> turns every exception into the empty array.
\<close>

definition fetchUserCasts :: "NeynarCast list option http attempt \<Rightarrow> NeynarCast list" where
  "fetchUserCasts feed =
     (case feed of
        Threw \<Rightarrow> []
      | Returned response \<Rightarrow>
          if \<not> ok response then []
          else
            (case json response of
               Threw \<Rightarrow> []
             | Returned None \<Rightarrow> []
             | Returned (Some posts) \<Rightarrow> posts))"

definition fetchUserData :: "VerifiedAccount list option http attempt \<Rightarrow> VerifiedAccount list" where
  "fetchUserData feed =
     (case feed of
        Threw \<Rightarrow> []
      | Returned response \<Rightarrow>
          if \<not> ok response then []
          else
            (case json response of
               Threw \<Rightarrow> []
             | Returned None \<Rightarrow> []
             | Returned (Some accounts) \<Rightarrow> accounts))"

text \<open>
  The responses of the route: a score with its \<open>source\<close> and, from the cache, its
  \<open>analyzedAt\<close>; a failure with its status and message; the rejection of the body
  (status 400).
\<close>

datatype reply =
    Scored analysis_result string "int option"
  | Refused nat string
  | Rejected

definition no_posts :: reply where
  "no_posts = Refused 404 ''No posts found for analysis. Please ensure the user has public posts.''"

definition failed :: reply where
  "failed = Refused 500 ''Failed to analyze IQ. Please try again later.''"

text \<open>
  The verified accounts the analysis gets: those of the request, else those of the
  cached user, else those the network reports. An empty array in the request is truthy and
  is kept.
\<close>

definition resolve_accounts :: "route_env \<Rightarrow> store \<Rightarrow> request_data
    \<Rightarrow> VerifiedAccount list option \<times> call list" where
  "resolve_accounts env st req =
     (case request_verifiedAccounts req of
        Some accounts \<Rightarrow> (Some accounts, [])
      | None \<Rightarrow>
          (case getUserFromDatabaseByFid st (fid req) of
             Some verified_accounts \<Rightarrow> (verified_accounts, [CallGetUser])
           | None \<Rightarrow> (Some (fetchUserData (user_feed env)), [CallGetUser, CallFetchUserData])))"

text \<open>The lookup of a recent score at the head of the route, with the calls it makes.\<close>

definition cached_score :: "route_env \<Rightarrow> store \<Rightarrow> request_data \<Rightarrow> iq_entry option \<times> call list" where
  "cached_score env st req =
     (if hasRecentIQScore st (now env) (fid req) 30
      then (getIQScoreFromDatabase st (fid req), [CallHasRecentIQScore, CallGetIQScore])
      else (None, [CallHasRecentIQScore]))"

text \<open>
  \<open>POST\<close>: the response, the store afterwards and the calls made. An exception that
  reaches the outer \<open>catch\<close> gives the status 500; the one of the write is caught
  before.
\<close>

definition POST :: "runtime \<Rightarrow> route_env \<Rightarrow> store \<Rightarrow> reply \<times> store \<times> call list" where
  "POST rt env st =
     (case request env of
        Unreadable \<Rightarrow> (failed, st, [])
      | Invalid \<Rightarrow> (Rejected, st, [])
      | Valid req \<Rightarrow>
          (case cached_score env st req of
             (Some cachedIQScore, calls) \<Rightarrow>
               (Scored \<lparr> score = entry_score cachedIQScore, analysis = entry_analysis cachedIQScore,
                         confidence = entry_confidence cachedIQScore \<rparr>
                  ''database'' (Some (analyzedAt cachedIQScore)),
                st, calls)
           | (None, calls) \<Rightarrow>
               (case resolve_accounts env st req of
                  (userVerifiedAccounts, calls') \<Rightarrow>
                    (let posts = fetchUserCasts (casts_feed env);
                         fetched = calls @ calls' @ [CallFetchUserCasts]
                     in
                     if length posts = 0 then (no_posts, st, fetched)
                     else
                       (case analyzeWithAI rt (world env)
                               \<lparr> username = request_username req, displayName = request_displayName req,
                                 casts = posts, verifiedAccounts = userVerifiedAccounts \<rparr> of
                          (Threw, calls'') \<Rightarrow> (failed, st, fetched @ calls'')
                        | (Returned result, calls'') \<Rightarrow>
                            (Scored result ''api'' None,
                             if save_fails env then st
                             else saveIQScoreToDatabase st (now env) (fid req) result,
                             fetched @ calls'' @ [CallSaveIQScore]))))))"

section \<open>Notions of the specification\<close>

text \<open>A number lies in a range: it is finite and between the bounds.\<close>

definition in_range :: "real \<Rightarrow> real \<Rightarrow> jsnum \<Rightarrow> bool" where
  "in_range lo hi n = (case n of Fin r \<Rightarrow> lo \<le> r \<and> r \<le> hi | _ \<Rightarrow> False)"

text \<open>\<open>clamp(lo, hi, x)\<close> of the composite formula.\<close>

definition clamp :: "int \<Rightarrow> int \<Rightarrow> int \<Rightarrow> int" where
  "clamp lo hi x = max lo (min hi x)"

text \<open>The jitter of the heuristic, \<open>uniformRandom(-7.5, 7.5)\<close>, from the random value.\<close>

definition jitter :: "analysis_env \<Rightarrow> real" where
  "jitter env = fmul (fsub (random_heuristic env) 0.5) 15"

text \<open>
  Neither the external score nor a provider produces a result, and the heuristic does
  not fail: the case in which the specification expects the heuristic's result.
\<close>

definition falls_to_heuristic :: "runtime \<Rightarrow> analysis_env \<Rightarrow> user_data \<Rightarrow> bool" where
  "falls_to_heuristic rt env userData =
     (fst (external_iq rt env userData) = None \<and> fst (openai_tier rt env) = None
      \<and> fst (gemini_tier rt env) = None \<and> \<not> heuristic_fault env)"

text \<open>The \<open>source\<close> member of a response, if it has one.\<close>

fun source_of :: "reply \<Rightarrow> string option" where
  "source_of (Scored result source analyzed) = Some source"
| "source_of _ = None"

section \<open>Inputs of the worked examples\<close>

text \<open>
  A runtime for the examples: it lowers the ASCII capitals, reads no string as a number
  and parses the one payload the examples parse, an object with an \<open>analysis\<close> member
  only.
\<close>

definition example_runtime :: runtime where
  "example_runtime =
     \<lparr> toLowerCase = map (\<lambda>c. if 65 \<le> c \<and> c \<le> 90 then c + 32 else c),
       StringToNumber = (\<lambda>s. NaN),
       JSON_parse = (\<lambda>s. if s = lit ''{\"analysis\":\"ok\"}''
                           then Returned (Object [(''analysis'', String (lit ''ok''))])
                           else Threw) \<rparr>"

definition hello_post :: NeynarCast where
  "hello_post =
     \<lparr> cast_text = lit ''Hello world'', timestamp = lit ''2025-01-01T00:00:00Z'',
       likes_count = 5, recasts_count = 0, replies_count = 0 \<rparr>"

definition tie_post :: NeynarCast where
  "tie_post =
     \<lparr> cast_text = lit ''Code and money'', timestamp = lit ''2025-01-02T00:00:00Z'',
       likes_count = 2, recasts_count = 1, replies_count = 0 \<rparr>"

definition art_post :: NeynarCast where
  "art_post =
     \<lparr> cast_text = lit ''Art, art, code.'', timestamp = lit ''2025-01-03T00:00:00Z'',
       likes_count = 0, recasts_count = 0, replies_count = 0 \<rparr>"

definition hello_user :: user_data where
  "hello_user =
     \<lparr> username = Some (lit ''alice''), displayName = None, casts = [hello_post],
       verifiedAccounts = Some [] \<rparr>"

text \<open>
  Three times the same question with 24 likes each: posts on which the base score of the
  heuristic falls just below a half.
\<close>

definition question_post :: NeynarCast where
  "question_post =
     \<lparr> cast_text = lit ''What is this? No idea'', timestamp = lit ''2025-01-04T00:00:00Z'',
       likes_count = 24, recasts_count = 0, replies_count = 0 \<rparr>"

definition question_user :: user_data where
  "question_user =
     \<lparr> username = Some (lit ''bob''), displayName = None,
       casts = [question_post, question_post, question_post], verifiedAccounts = None \<rparr>"

text \<open>No credential is configured and no service answers.\<close>

definition offline_env :: analysis_env where
  "offline_env =
     \<lparr> iq_checker = (\<lambda>h. Threw), OPENAI_API_KEY = None, openai = Threw,
       GEMINI_API_KEY = None, gemini = Threw,
       random_heuristic = 1 / 2, random_degraded = 1 / 2, heuristic_fault = False \<rparr>"

text \<open>Both credentials are configured and both requests fail in transport.\<close>

definition transport_env :: analysis_env where
  "transport_env =
     offline_env \<lparr> OPENAI_API_KEY := Some (lit ''sk-a''), GEMINI_API_KEY := Some (lit ''sk-b'') \<rparr>"

text \<open>
  Both credentials are configured, and the first provider answers with a completion whose
  content is the JSON text \<open>{"analysis":"ok"}\<close>: it has neither \<open>score\<close> nor
  \<open>confidence\<close>.
\<close>

definition incomplete_env :: analysis_env where
  "incomplete_env =
     transport_env \<lparr> openai := Returned
       \<lparr> ok = True,
         json = Returned (Object [(''choices'',
                  Array [Object [(''message'',
                    Object [(''content'', String (lit ''{\"analysis\":\"ok\"}''))])]])]) \<rparr> \<rparr>"

text \<open>The heuristic throws after both providers were skipped.\<close>

definition faulty_env :: analysis_env where
  "faulty_env = offline_env \<lparr> heuristic_fault := True \<rparr>"

definition empty_store :: store where
  "empty_store = \<lparr> iq_scores = Map.empty, users = Map.empty \<rparr>"

text \<open>A store that holds a score of account 7, written at time 1000.\<close>

definition seven_entry :: iq_entry where
  "seven_entry =
     \<lparr> entry_score = Fin 101, entry_analysis = ProviderText (String (lit ''ok'')),
       entry_confidence = Fin 70, analyzedAt = 1000 \<rparr>"

definition seven_store :: store where
  "seven_store = \<lparr> iq_scores = [7 \<mapsto> seven_entry], users = Map.empty \<rparr>"

definition seven_request :: request_data where
  "seven_request =
     \<lparr> fid = 7, request_username = Some (lit ''alice''), request_displayName = None,
       request_verifiedAccounts = Some [] \<rparr>"

text \<open>
  A request for account 7 one day (86400000 ms) after time 1000; the feed delivers one
  post, both providers fail in transport, and the write succeeds.
\<close>

definition seven_env :: route_env where
  "seven_env =
     \<lparr> request = Valid seven_request, now = 86401000,
       user_feed = Threw,
       casts_feed = Returned \<lparr> ok = True, json = Returned (Some [hello_post]) \<rparr>,
       world = transport_env, save_fails = False \<rparr>"

text \<open>The same request when the feed is empty, when it fails, and when the write fails.\<close>

definition empty_feed_env :: route_env where
  "empty_feed_env = seven_env \<lparr> casts_feed := Returned \<lparr> ok = True, json = Returned (Some []) \<rparr> \<rparr>"

definition broken_feed_env :: route_env where
  "broken_feed_env = seven_env \<lparr> casts_feed := Threw \<rparr>"

definition failing_save_env :: route_env where
  "failing_save_env = seven_env \<lparr> save_fails := True \<rparr>"

text \<open>What the extractors and the heuristic yield on \<open>hello_post\<close> alone.\<close>

definition hello_topics :: topic_diversity where
  "hello_topics =
     \<lparr> topicCounts = [(''tech'', 0), (''finance'', 0), (''politics'', 0), (''culture'', 0),
         (''sports'', 0), (''humor'', 0), (''philosophy'', 0), (''science'', 0)],
       totalTopicMatches = 0, activeTopics = 0, diversityScore = 0, primaryTopic = ''science'' \<rparr>"

definition hello_report :: heuristic_report where
  "hello_report =
     \<lparr> postCount = 1, comprehensive = double 23.7, contentQuality = double 3.3, reportAvgLength = 11,
       reportHasQuestions = 0, writingStyle = 89, reportVocabularyRatio = 1, engagement = 5 / 2,
       reportConsistency = 0, topicDiversityValue = 0, reportActiveTopics = 0,
       reportPrimaryTopic = ''science'', reportFinalScore = 84 \<rparr>"

definition hello_result :: analysis_result where
  "hello_result = \<lparr> score = Fin 84, analysis = HeuristicText hello_report, confidence = Fin 59 \<rparr>"

text \<open>What the first provider's incomplete payload turns into.\<close>

definition incomplete_result :: analysis_result where
  "incomplete_result =
     \<lparr> score = NaN, analysis = ProviderText (String (lit ''ok'')), confidence = NaN \<rparr>"

text \<open>The topics of \<open>tie_post\<close> (one match each for tech and finance) and of \<open>art_post\<close>.\<close>

definition tie_topics :: topic_diversity where
  "tie_topics =
     \<lparr> topicCounts = [(''tech'', 1), (''finance'', 1), (''politics'', 0), (''culture'', 0),
         (''sports'', 0), (''humor'', 0), (''philosophy'', 0), (''science'', 0)],
       totalTopicMatches = 2, activeTopics = 2, diversityScore = 25, primaryTopic = ''finance'' \<rparr>"

definition art_topics :: topic_diversity where
  "art_topics =
     \<lparr> topicCounts = [(''tech'', 1), (''finance'', 0), (''politics'', 0), (''culture'', 2),
         (''sports'', 0), (''humor'', 0), (''philosophy'', 0), (''science'', 0)],
       totalTopicMatches = 3, activeTopics = 2, diversityScore = 25, primaryTopic = ''culture'' \<rparr>"

section \<open>Rounding to binary64\<close>

lemma round_even_of_int: "round_even (of_int j) = j"
  by (simp add: round_even_def)

lemma round_even_bounds: "\<lfloor>y\<rfloor> \<le> round_even y \<and> round_even y \<le> \<lfloor>y\<rfloor> + 1"
  by (simp add: round_even_def Let_def)

lemma round_even_mono:
  assumes "x \<le> y"
  shows "round_even x \<le> round_even y"
proof (cases "\<lfloor>x\<rfloor> = \<lfloor>y\<rfloor>")
  case True
  have "x - of_int \<lfloor>y\<rfloor> \<le> y - of_int \<lfloor>y\<rfloor>"
    using assms by simp
  then show ?thesis
    using True by (auto simp: round_even_def Let_def)
next
  case False
  then have "\<lfloor>x\<rfloor> < \<lfloor>y\<rfloor>"
    using floor_mono [OF assms] by linarith
  then show ?thesis
    using round_even_bounds [of x] round_even_bounds [of y] by linarith
qed

lemma two_powi_pos: "0 < (2::real) powi k"
  by (simp add: zero_less_power_int)

lemma exponent_bounds:
  assumes "x \<noteq> 0"
  shows "2 powi \<lfloor>log 2 \<bar>x\<bar>\<rfloor> \<le> \<bar>x\<bar> \<and> \<bar>x\<bar> < 2 powi (\<lfloor>log 2 \<bar>x\<bar>\<rfloor> + 1)"
proof -
  have "0 < \<bar>x\<bar>" using assms by simp
  then have "2 powr of_int \<lfloor>log 2 \<bar>x\<bar>\<rfloor> \<le> \<bar>x\<bar> \<and> \<bar>x\<bar> < 2 powr (of_int \<lfloor>log 2 \<bar>x\<bar>\<rfloor> + 1)"
    using floor_log_eq_powr_iff [of "\<bar>x\<bar>" 2 "\<lfloor>log 2 \<bar>x\<bar>\<rfloor>"] by simp
  moreover have "(2::real) powr of_int k = 2 powi k" for k
    by (simp add: powr_real_of_int')
  moreover have "of_int \<lfloor>log 2 \<bar>x\<bar>\<rfloor> + (1::real) = of_int (\<lfloor>log 2 \<bar>x\<bar>\<rfloor> + 1)"
    by simp
  ultimately show ?thesis
    by metis
qed

lemma exponent_eqI:
  assumes "2 powi e \<le> \<bar>x\<bar>" and "\<bar>x\<bar> < 2 powi (e + 1)"
  shows "\<lfloor>log 2 \<bar>x\<bar>\<rfloor> = e"
proof -
  have pos: "0 < \<bar>x\<bar>"
    using assms(1) two_powi_pos [of e] by linarith
  have c: "(2::real) powr of_int k = 2 powi k" for k
    by (simp add: powr_real_of_int')
  have "2 powr of_int e \<le> \<bar>x\<bar>"
    using assms(1) by (simp only: c)
  moreover have "\<bar>x\<bar> < 2 powr (of_int e + 1)"
  proof -
    have "of_int e + (1::real) = of_int (e + 1)" by simp
    then show ?thesis using assms(2) by (simp only: c)
  qed
  ultimately show ?thesis
    using floor_log_eq_powr_iff [of "\<bar>x\<bar>" 2 e] pos by simp
qed

lemma double_eqI:
  assumes "2 powi (k + 52) \<le> \<bar>x\<bar>" and "\<bar>x\<bar> < 2 powi (k + 53)"
  shows "double x = of_int (round_even (x / 2 powi k)) * 2 powi k"
proof -
  have "k + 52 + 1 = k + 53" by simp
  then have "\<bar>x\<bar> < 2 powi (k + 52 + 1)"
    using assms(2) by (simp only:)
  with assms(1) have e: "\<lfloor>log 2 \<bar>x\<bar>\<rfloor> = k + 52"
    by (rule exponent_eqI)
  have "0 < \<bar>x\<bar>"
    using assms(1) two_powi_pos [of "k + 52"] by linarith
  then have "x \<noteq> 0"
    by simp
  then show ?thesis
    by (simp add: double_def ulp_def e)
qed

lemma powi_le_D: "(2::real) powi a \<le> 2 powi b \<Longrightarrow> a \<le> b"
proof -
  assume "(2::real) powi a \<le> 2 powi b"
  then have "(2::real) powr of_int a \<le> 2 powr of_int b"
    by (simp add: powr_real_of_int')
  then have "(of_int a :: real) \<le> of_int b"
    by simp
  then show ?thesis by simp
qed

text \<open>A value with at most 53 significant bits is not changed by rounding.\<close>

lemma double_exact:
  assumes "\<bar>m\<bar> \<le> 2 ^ 53"
  shows "double (of_int m * 2 powi k) = of_int m * 2 powi k"
proof (cases "m = 0")
  case True
  then show ?thesis by (simp add: double_def)
next
  case False
  let ?x = "of_int m * (2::real) powi k"
  have x0: "?x \<noteq> 0"
    using False by simp
  define e where "e = \<lfloor>log 2 \<bar>?x\<bar>\<rfloor>"
  have ax: "\<bar>?x\<bar> = of_int \<bar>m\<bar> * 2 powi k"
    by (simp add: abs_mult)
  have lo: "2 powi e \<le> \<bar>?x\<bar>" and hi: "\<bar>?x\<bar> < 2 powi (e + 1)"
    using exponent_bounds [OF x0] by (simp_all add: e_def)
  have m53: "(of_int \<bar>m\<bar> :: real) \<le> 2 ^ 53"
    using assms by (metis of_int_le_iff of_int_numeral of_int_power)
  have "2 powi e \<le> 2 ^ 53 * (2::real) powi k"
    using lo m53 two_powi_pos [of k] unfolding ax
    by (meson mult_right_mono order_trans less_imp_le)
  also have "\<dots> = 2 powi (k + 53)"
    by (simp add: power_int_add)
  finally have ek: "e \<le> k + 53"
    by (rule powi_le_D)
  show ?thesis
  proof (cases "e = k + 53")
    case True
    have "(2::real) powi (k + 53) \<le> of_int \<bar>m\<bar> * 2 powi k"
      using lo unfolding ax True .
    then have "(2::real) ^ 53 * 2 powi k \<le> of_int \<bar>m\<bar> * 2 powi k"
      by (simp add: power_int_add mult.commute)
    then have "(2::real) ^ 53 \<le> of_int \<bar>m\<bar>"
      using two_powi_pos [of k] by simp
    then have "of_int \<bar>m\<bar> = (2::real) ^ 53"
      using m53 by linarith
    then have am: "\<bar>m\<bar> = 2 ^ 53"
      by (metis of_int_eq_iff of_int_numeral of_int_power)
    have u: "(2::real) powi (e - 52) = 2 * 2 powi k"
      by (simp add: True power_int_add)
    have "even m"
      using am by (metis even_abs_add_iff even_add even_numeral even_power zero_less_numeral)
    then have h: "(of_int (m div 2) :: real) = of_int m / 2"
      by (simp add: real_of_int_div)
    have q: "?x / (2 * 2 powi k) = of_int (m div 2)"
      by (simp add: h)
    have "double ?x = of_int (round_even (?x / (2 * 2 powi k))) * (2 * 2 powi k)"
      using x0 by (simp add: double_def ulp_def e_def [symmetric] u del: of_int_mult)
    also have "\<dots> = of_int (m div 2) * (2 * 2 powi k)"
      by (simp only: q round_even_of_int)
    also have "\<dots> = ?x"
      by (simp add: h)
    finally show ?thesis .
  next
    case False
    with ek have le: "e - 52 \<le> k" by simp
    define j where "j = nat (k - (e - 52))"
    have kk: "k = (e - 52) + int j"
      using le by (simp add: j_def)
    have u: "(2::real) powi k = 2 powi (e - 52) * 2 ^ j"
      by (subst kk) (simp add: power_int_add)
    have q: "?x / 2 powi (e - 52) = of_int (m * 2 ^ j)"
      by (simp add: u)
    have "double ?x = of_int (round_even (?x / 2 powi (e - 52))) * 2 powi (e - 52)"
      using x0 by (simp add: double_def ulp_def e_def [symmetric] del: of_int_mult)
    also have "\<dots> = of_int (m * 2 ^ j) * 2 powi (e - 52)"
      by (simp only: q round_even_of_int)
    also have "\<dots> = ?x"
      by (simp add: u)
    finally show ?thesis .
  qed
qed

lemma double_of_int: "\<bar>i\<bar> \<le> 2 ^ 53 \<Longrightarrow> double (of_int i) = of_int i"
  using double_exact [of i 0] by simp

text \<open>Every result of rounding has at most 53 significant bits.\<close>

lemma double_representable: "\<exists>m k. \<bar>m\<bar> \<le> 2 ^ 53 \<and> double x = of_int m * 2 powi k"
proof (cases "x = 0")
  case True
  have "\<bar>0::int\<bar> \<le> 2 ^ 53 \<and> double x = of_int 0 * 2 powi 0"
    using True by (simp add: double_def)
  then show ?thesis by blast
next
  case False
  define e where "e = \<lfloor>log 2 \<bar>x\<bar>\<rfloor>"
  define u :: real where "u = 2 powi (e - 52)"
  have upos: "0 < u"
    by (simp add: u_def two_powi_pos)
  have hi: "\<bar>x\<bar> < 2 powi (e + 1)"
    using exponent_bounds [OF False] by (simp add: e_def)
  have "2 powi (e + 1) = (2::real) ^ 53 * u"
  proof -
    have "e + 1 = 53 + (e - 52)" by simp
    then show ?thesis
      unfolding u_def by (metis power_int_add power_int_numeral zero_neq_numeral)
  qed
  then have "\<bar>x\<bar> / u < 2 ^ 53"
    using hi upos by (simp add: pos_divide_less_eq)
  then have "\<bar>x / u\<bar> < 2 ^ 53"
    using upos by simp
  then have b: "- (2 ^ 53) \<le> x / u" "x / u \<le> 2 ^ 53"
    by linarith+
  have "round_even (x / u) \<le> round_even (of_int (2 ^ 53))"
    using b(2) by (intro round_even_mono) simp
  moreover have "round_even (of_int (- (2 ^ 53))) \<le> round_even (x / u)"
    using b(1) by (intro round_even_mono) simp
  ultimately have "\<bar>round_even (x / u)\<bar> \<le> 2 ^ 53"
    by (simp only: round_even_of_int)
  moreover have "double x = of_int (round_even (x / u)) * 2 powi (e - 52)"
    using False by (simp add: double_def ulp_def e_def u_def)
  ultimately show ?thesis by blast
qed

lemma double_idem: "double (double x) = double x"
proof -
  obtain m k where "\<bar>m\<bar> \<le> 2 ^ 53" and "double x = of_int m * 2 powi k"
    using double_representable by blast
  then show ?thesis
    using double_exact [of m k] by simp
qed

text \<open>Rounding commutes with a division by four, which only moves the exponent.\<close>

lemma double_quarter: "double (x / 4) = double x / 4"
proof (cases "x = 0")
  case True
  then show ?thesis by (simp add: double_def)
next
  case False
  define e where "e = \<lfloor>log 2 \<bar>x\<bar>\<rfloor>"
  have lo: "2 powi e \<le> \<bar>x\<bar>" and hi: "\<bar>x\<bar> < 2 powi (e + 1)"
    using exponent_bounds [OF False] by (simp_all add: e_def)
  have p: "(2::real) powi (a - 2) = 2 powi a / 4" for a
    by (simp add: power_int_diff)
  have "2 powi (e - 2) \<le> \<bar>x / 4\<bar>"
    using lo by (simp add: p)
  moreover have "\<bar>x / 4\<bar> < 2 powi (e - 2 + 1)"
  proof -
    have "e - 2 + 1 = (e + 1) - 2" by simp
    then show ?thesis using hi by (simp only: p)
  qed
  ultimately have e4: "\<lfloor>log 2 \<bar>x / 4\<bar>\<rfloor> = e - 2"
    by (rule exponent_eqI)
  have u: "(2::real) powi (e - 2 - 52) = 2 powi (e - 52) / 4"
  proof -
    have "e - 2 - 52 = (e - 52) - 2" by simp
    then show ?thesis by (simp only: p)
  qed
  have "\<lfloor>log 2 (\<bar>x\<bar> / 4)\<rfloor> = e - 2"
    using e4 by simp
  moreover have "(2::real) powi (e - 54) * 4 = 2 powi (e - 52)"
    by (simp add: power_int_diff)
  ultimately have eq: "ulp (x / 4) = ulp x / 4"
    by (simp add: ulp_def e_def)
  have "double (x / 4) = of_int (round_even (x / 4 / ulp (x / 4))) * ulp (x / 4)"
    using False by (simp add: double_def)
  also have "\<dots> = of_int (round_even (x / 4 / (ulp x / 4))) * (ulp x / 4)"
    by (simp only: eq)
  also have "x / 4 / (ulp x / 4) = x / ulp x"
    by simp
  finally show ?thesis
    using False by (simp add: double_def)
qed

lemma double_nonneg:
  assumes "0 \<le> x"
  shows "0 \<le> double x"
proof (cases "x = 0")
  case True
  then show ?thesis by (simp add: double_def)
next
  case False
  define u :: real where "u = 2 powi (\<lfloor>log 2 \<bar>x\<bar>\<rfloor> - 52)"
  have upos: "0 < u"
    by (simp add: u_def two_powi_pos)
  then have "0 \<le> x / u"
    using assms by simp
  then have "round_even (of_int 0) \<le> round_even (x / u)"
    by (intro round_even_mono) simp
  then have "0 \<le> round_even (x / u)"
    by (simp only: round_even_of_int)
  then show ?thesis
    using False upos by (simp add: double_def ulp_def u_def)
qed

text \<open>
  Evaluation at a concrete number: with the exponent \<open>k\<close> of the last bit and the
  significand \<open>m\<close> given, what is left is arithmetic on numerals.
\<close>

lemma double_evalI:
  assumes "2 powi (k + 52) \<le> \<bar>x\<bar>" and "\<bar>x\<bar> < 2 powi (k + 53)"
    and "round_even (x / 2 powi k) = m" and "y = of_int m * 2 powi k"
  shows "double x = y"
  using double_eqI [OF assms(1,2)] assms(3,4) by simp

lemma double_zero: "double 0 = 0"
  by (simp add: double_def)

lemma double_one: "double 1 = 1"
  using double_of_int [of 1] by simp

lemma double_numeral: "numeral n \<le> (2::int) ^ 53 \<Longrightarrow> double (numeral n) = numeral n"
  using double_of_int [of "numeral n"] by simp

lemma double_of_nat: "n \<le> 2 ^ 53 \<Longrightarrow> double (real n) = real n"
  using double_of_int [of "int n"] by simp

text \<open>The literals of the source, rounded.\<close>

lemma literal_values:
  "double (3 / 10) = 5404319552844595 / 18014398509481984"
  "double (3 / 5) = 5404319552844595 / 9007199254740992"
  "double (1 / 5) = 3602879701896397 / 18014398509481984"
  "double (1 / 2) = 1 / 2"
  "double (1 / 4) = 1 / 4"
  "double (3 / 2) = 3 / 2"
proof -
  show "double (3 / 10) = 5404319552844595 / 18014398509481984"
    by (rule double_evalI [where k = "- 54" and m = 5404319552844595]) (simp_all add: round_even_def Let_def)
  show "double (3 / 5) = 5404319552844595 / 9007199254740992"
    by (rule double_evalI [where k = "- 53" and m = 5404319552844595]) (simp_all add: round_even_def Let_def)
  show "double (1 / 5) = 3602879701896397 / 18014398509481984"
    by (rule double_evalI [where k = "- 55" and m = 7205759403792794]) (simp_all add: round_even_def Let_def)
  show "double (1 / 2) = 1 / 2"
    by (rule double_evalI [where k = "- 53" and m = 4503599627370496]) (simp_all add: round_even_def Let_def)
  show "double (1 / 4) = 1 / 4"
    by (rule double_evalI [where k = "- 54" and m = 4503599627370496]) (simp_all add: round_even_def Let_def)
  show "double (3 / 2) = 3 / 2"
    by (rule double_evalI [where k = "- 52" and m = 6755399441055744]) (simp_all add: round_even_def Let_def)
qed

lemmas arithmetic = fadd_def fsub_def fmul_def fdiv_def double_zero double_one double_numeral
  literal_values

text \<open>The operations keep the sign of non-negative operands.\<close>

lemma fadd_nonneg: "0 \<le> x \<Longrightarrow> 0 \<le> y \<Longrightarrow> 0 \<le> fadd x y"
  by (simp add: fadd_def double_nonneg)

lemma fmul_nonneg: "0 \<le> x \<Longrightarrow> 0 \<le> y \<Longrightarrow> 0 \<le> fmul x y"
  by (simp add: fmul_def double_nonneg)

lemma fdiv_nonneg: "0 \<le> x \<Longrightarrow> 0 \<le> y \<Longrightarrow> 0 \<le> fdiv x y"
  by (simp add: fdiv_def double_nonneg)

text \<open>
  A quarter of a sum: multiplying each summand by \<open>0.25\<close> and adding gives what adding
  and then multiplying gives, since a multiplication by \<open>0.25\<close> is exact.
\<close>

lemma fmul_quarter: "double x = x \<Longrightarrow> fmul x 0.25 = x / 4"
  using double_quarter [of x] by (simp add: fmul_def)

lemma fadd_quarters: "fadd (x / 4) (y / 4) = fadd x y / 4"
  using double_quarter [of "x + y"] by (simp add: fadd_def add_divide_distrib)

lemma quarter_of_sum:
  assumes "double a = a" and "double b = b" and "double c = c" and "double d = d"
  shows "fadd (fadd (fadd (fmul a 0.25) (fmul b 0.25)) (fmul c 0.25)) (fmul d 0.25)
       = fmul 0.25 (fadd (fadd (fadd a b) c) d)"
proof -
  let ?s = "fadd (fadd (fadd a b) c) d"
  have "double ?s = ?s"
    by (simp add: fadd_def double_idem)
  then have "fmul ?s 0.25 = ?s / 4"
    by (rule fmul_quarter)
  then have "fmul 0.25 ?s = ?s / 4"
    by (simp add: fmul_def mult.commute)
  then show ?thesis
    by (simp only: fmul_quarter [OF assms(1)] fmul_quarter [OF assms(2)] fmul_quarter [OF assms(3)]
          fmul_quarter [OF assms(4)] fadd_quarters)
qed

lemma double_min_100: "double (min 100 (double x)) = min 100 (double x)"
proof -
  have "double 100 = 100"
    by (simp add: double_numeral)
  then show ?thesis
    by (simp add: min_def double_idem)
qed

section \<open>Clamping and rounding\<close>

lemma clamp_number:
  "lo \<le> hi \<Longrightarrow> n \<noteq> NaN \<Longrightarrow> in_range lo hi (Math_max (Fin lo) (Math_min (Fin hi) n))"
  by (cases n) (simp_all add: in_range_def)

lemma clamp_NaN: "Math_max (Fin lo) (Math_min (Fin hi) NaN) = NaN"
  by simp

lemma Math_round_mono: "x \<le> y \<Longrightarrow> Math_round x \<le> Math_round y"
  by (simp add: Math_round_def floor_mono)

lemma Math_round_of_int: "Math_round (of_int k) = k"
  unfolding Math_round_def by linarith

lemma Math_round_bounds:
  assumes "of_int lo \<le> x" and "x \<le> of_int hi"
  shows "lo \<le> Math_round x \<and> Math_round x \<le> hi"
  using Math_round_mono [OF assms(1)] Math_round_mono [OF assms(2)]
  by (simp add: Math_round_of_int)

text \<open>Rounding and clamping to integer bounds commute.\<close>

lemma Math_round_clamp:
  "Math_round (max (of_int lo) (min (of_int hi) x)) = max lo (min hi (Math_round x))"
proof -
  have a: "Math_round (max (of_int lo) y) = max lo (Math_round y)" for y
    by (cases "of_int lo \<le> y")
       (use Math_round_mono [of "of_int lo" y] Math_round_mono [of y "of_int lo"] Math_round_of_int [of lo]
        in \<open>auto simp: max_def\<close>)
  have b: "Math_round (min (of_int hi) y) = min hi (Math_round y)" for y
    by (cases "of_int hi \<le> y")
       (use Math_round_mono [of "of_int hi" y] Math_round_mono [of y "of_int hi"] Math_round_of_int [of hi]
        in \<open>auto simp: min_def\<close>)
  show ?thesis by (simp add: a b)
qed

text \<open>
  The paths that compute their numbers locally stay in range; the paths that read a
  service's payload do so whenever the payload's members convert to numbers.
\<close>

lemma heuristic_in_range:
  "in_range 55 145 (score (heuristic rnd posts c w e t))
   \<and> in_range 0 100 (confidence (heuristic rnd posts c w e t))"
proof -
  define x where "x = max 30 (min 85 (fadd (fadd 50 (fmul (real (length posts)) 2))
      (fmul (comprehensiveScore c w e t) (double 0.3))))"
  have "of_int 30 \<le> x" and "x \<le> of_int 85"
    by (simp_all add: x_def)
  then have "30 \<le> Math_round x \<and> Math_round x \<le> 85"
    by (rule Math_round_bounds)
  then have "in_range 0 100 (Fin (of_int (Math_round x)))"
    by (simp add: in_range_def)
  moreover have "confidence (heuristic rnd posts c w e t) = Fin (of_int (Math_round x))"
    by (simp add: heuristic_def Let_def x_def)
  moreover have "in_range 55 145 (score (heuristic rnd posts c w e t))"
    by (simp add: heuristic_def Let_def in_range_def)
  ultimately show ?thesis by simp
qed

lemma degraded_in_range:
  "in_range 55 145 (score (degraded rnd posts))
   \<and> in_range 0 100 (confidence (degraded rnd posts))"
proof -
  define x where "x = max 55 (min 145 (fadd 85 (fmul (fsub rnd 0.5) 40)))"
  define y where "y = max 25 (min 60 (fadd 40 (fmul (real (length posts)) 1.5)))"
  have "of_int 55 \<le> x" and "x \<le> of_int 145"
    by (simp_all add: x_def)
  then have x: "55 \<le> Math_round x \<and> Math_round x \<le> 145"
    by (rule Math_round_bounds)
  have "of_int 25 \<le> y" and "y \<le> of_int 60"
    by (simp_all add: y_def)
  then have y: "25 \<le> Math_round y \<and> Math_round y \<le> 60"
    by (rule Math_round_bounds)
  have "score (degraded rnd posts) = Fin (of_int (Math_round x))"
    and "confidence (degraded rnd posts) = Fin (of_int (Math_round y))"
    by (simp_all add: degraded_def Let_def x_def y_def)
  then show ?thesis
    using x y by (simp add: in_range_def)
qed

lemma from_content_in_range:
  assumes "from_content rt content = Some result"
    and "score result \<noteq> NaN" and "confidence result \<noteq> NaN"
  shows "in_range 55 145 (score result) \<and> in_range 0 100 (confidence result)"
proof -
  obtain a b c where r: "result = \<lparr> score = Math_max (Fin 55) (Math_min (Fin 145) a), analysis = b,
      confidence = Math_max (Fin 0) (Math_min (Fin 100) c) \<rparr>"
    using assms(1)
    by (auto simp: from_content_def split: if_splits jsval.splits option.splits attempt.splits)
  have "a \<noteq> NaN" and "c \<noteq> NaN"
    using assms(2,3) r by auto
  then show ?thesis
    using clamp_number [of 55 145 a] clamp_number [of 0 100 c] by (simp add: r)
qed

text \<open>The three scores that are sums lie between 0 and 100, as the fourth does by its minimum.\<close>

lemma ratio_nonneg: "0 \<le> ratio p posts"
  by (simp add: ratio_def fdiv_nonneg)

lemma foldl_fadd_nonneg:
  "0 \<le> a \<Longrightarrow> (\<And>x. 0 \<le> f x) \<Longrightarrow> 0 \<le> foldl (\<lambda>sum x. fadd sum (f x)) a xs"
  by (induction xs arbitrary: a) (simp_all add: fadd_nonneg)

lemma counts_nonneg: "0 \<le> likes cast" "0 \<le> recasts cast" "0 \<le> replies cast"
  by (simp_all add: likes_def recasts_def replies_def double_nonneg)

lemma totalEngagement_nonneg:
  "0 \<le> a \<Longrightarrow>
   0 \<le> foldl (\<lambda>sum cast. fadd (fadd (fadd sum (likes cast)) (recasts cast)) (replies cast)) a posts"
  by (induction posts arbitrary: a) (simp_all add: fadd_nonneg counts_nonneg)

lemma scores_between_0_and_100:
  "0 \<le> contentQualityScore (analyzeContentQuality posts)
     \<and> contentQualityScore (analyzeContentQuality posts) \<le> 100"
  "0 \<le> writingStyleScore (analyzeWritingStyle rt posts)
     \<and> writingStyleScore (analyzeWritingStyle rt posts) \<le> 100"
  "0 \<le> engagementScore (calculateEngagementMetrics posts)
     \<and> engagementScore (calculateEngagementMetrics posts) \<le> 100"
proof -
  have third: "0 \<le> double (3 / 10)"
    by (simp add: double_nonneg)
  have chars: "0 \<le> foldl (\<lambda>sum x. fadd sum (real (length (g x)))) 0 xs" for g :: "'a \<Rightarrow> nat list" and xs
    by (rule foldl_fadd_nonneg) simp_all
  show "0 \<le> contentQualityScore (analyzeContentQuality posts)
     \<and> contentQualityScore (analyzeContentQuality posts) \<le> 100"
    using chars [of cast_text posts]
    by (simp add: contentQualityScore_def analyzeContentQuality_def Let_def fadd_nonneg fmul_nonneg
          fdiv_nonneg ratio_nonneg third)
  show "0 \<le> writingStyleScore (analyzeWritingStyle rt posts)
     \<and> writingStyleScore (analyzeWritingStyle rt posts) \<le> 100"
    using chars [of "\<lambda>word. word"]
    by (simp add: writingStyleScore_def analyzeWritingStyle_def Let_def fadd_nonneg fmul_nonneg
          fdiv_nonneg)
  have "0 \<le> calculateConsistencyScore posts"
    by (simp add: calculateConsistencyScore_def Let_def)
  then show "0 \<le> engagementScore (calculateEngagementMetrics posts)
     \<and> engagementScore (calculateEngagementMetrics posts) \<le> 100"
    using totalEngagement_nonneg [of 0 posts]
    by (simp add: engagementScore_def calculateEngagementMetrics_def Let_def fadd_nonneg fmul_nonneg
          fdiv_nonneg ratio_nonneg third)
qed

section \<open>Properties of the topic extractor\<close>

lemma topics_nonempty: "topics \<noteq> []"
  unfolding topics_def by blast

lemma topic_names:
  "map fst topics = [''tech'', ''finance'', ''politics'', ''culture'', ''sports'', ''humor'',
     ''philosophy'', ''science'']"
  unfolding topics_def by (simp only: list.map fst_conv)

lemma reduce_topics:
  fixes g :: "string \<times> jsstring list \<Rightarrow> 'a"
  shows "\<exists>best. reduce f (map g topics) = Returned best"
proof -
  obtain x xs where t: "topics = x # xs"
    using topics_nonempty by (cases topics) auto
  have "reduce f (map g topics) = Returned (foldl f (g x) (map g xs))"
    unfolding t by simp
  then show ?thesis ..
qed

text \<open>The \<open>reduce\<close> of the extractor cannot throw: there are always eight counts.\<close>

lemma analyzeTopicDiversity_returns: "\<exists>td. analyzeTopicDiversity rt posts = Returned td"
proof -
  define g :: "string \<times> jsstring list \<Rightarrow> string \<times> nat" where "g = (\<lambda>(topic, alts). (topic,
    match_count alts 0 (toLowerCase rt (join (lit '' '') (map cast_text posts)))))"
  obtain best where "reduce keep_greater (map g topics) = Returned best"
    using reduce_topics [of keep_greater g] by blast
  then show ?thesis
    unfolding analyzeTopicDiversity_def Let_def g_def by simp
qed

text \<open>
  Where the fold of \<open>keep_greater\<close> ends: nothing before the entry is greater, and
  everything behind it is smaller.
\<close>

lemma foldl_keep_greater_split:
  "\<exists>before after. x # xs = before @ foldl keep_greater x xs # after
     \<and> (\<forall>e \<in> set before. snd e \<le> snd (foldl keep_greater x xs))
     \<and> (\<forall>e \<in> set after. snd e < snd (foldl keep_greater x xs))"
proof (induction xs rule: rev_induct)
  case Nil
  have "[x] = [] @ x # []" by simp
  then show ?case by fastforce
next
  case (snoc y ys)
  let ?b = "foldl keep_greater x ys"
  from snoc obtain before after where
    split: "x # ys = before @ ?b # after"
    and le: "\<forall>e \<in> set before. snd e \<le> snd ?b"
    and less: "\<forall>e \<in> set after. snd e < snd ?b"
    by blast
  show ?case
  proof (cases "snd ?b > snd y")
    case True
    then have best: "foldl keep_greater x (ys @ [y]) = ?b"
      by (simp add: keep_greater_def)
    have "x # ys @ [y] = before @ ?b # (after @ [y])"
      using split by simp
    moreover have "\<forall>e \<in> set (after @ [y]). snd e < snd ?b"
      using less True by auto
    ultimately show ?thesis
      using le best by (metis append_Cons)
  next
    case False
    then have best: "foldl keep_greater x (ys @ [y]) = y"
      by (simp add: keep_greater_def)
    have all: "\<forall>e \<in> set (x # ys). snd e \<le> snd y"
    proof
      fix e assume "e \<in> set (x # ys)"
      then have "e \<in> set before \<or> e = ?b \<or> e \<in> set after"
        using split by (metis Un_iff set_append set_ConsD)
      then show "snd e \<le> snd y"
        using le less False by force
    qed
    have "x # ys @ [y] = (x # ys) @ y # []" by simp
    then show ?thesis
      using all best by (metis empty_iff list.set(1) append_Cons)
  qed
qed

lemma highest_count_split:
  assumes "counts = before @ e # after"
    and "\<forall>x \<in> set before. snd x \<le> snd e" and "\<forall>x \<in> set after. snd x < snd e"
  shows "highest_count counts = snd e"
proof -
  have "highest_count counts = Max (set (0 # map snd counts))"
    unfolding highest_count_def by (simp only: Max.set_eq_fold)
  also have "\<dots> = snd e"
  proof (rule Max_eqI)
    show "finite (set (0 # map snd counts))" by simp
    show "snd e \<in> set (0 # map snd counts)" using assms(1) by simp
    fix y assume "y \<in> set (0 # map snd counts)"
    then show "y \<le> snd e" using assms by force
  qed
  finally show ?thesis .
qed

lemma last_highest_split:
  assumes "counts = before @ e # after"
    and "\<forall>x \<in> set before. snd x \<le> snd e" and "\<forall>x \<in> set after. snd x < snd e"
  shows "last_highest counts = Some (fst e)"
proof -
  have h: "highest_count counts = snd e"
    using assms by (rule highest_count_split)
  have skip: "find p (xs @ ys) = find p ys" if "\<forall>x \<in> set xs. \<not> p x"
    for p :: "string \<times> nat \<Rightarrow> bool" and xs ys
    using that by (induction xs) auto
  have "find (\<lambda>entry. snd entry = snd e) (rev after @ e # rev before) = Some e"
    using assms(3) by (subst skip) auto
  then have "find (\<lambda>entry. snd entry = snd e) (rev counts) = Some e"
    by (simp add: assms(1))
  then show ?thesis
    by (simp add: last_highest_def h)
qed

lemma tie_counts:
  "map (\<lambda>(topic, alts). (topic, match_count alts 0
       (toLowerCase example_runtime (join (lit '' '') (map cast_text [tie_post]))))) topics
   = topicCounts tie_topics"
  by (simp add: topics_def example_runtime_def tie_post_def tie_topics_def)

lemma art_counts:
  "map (\<lambda>(topic, alts). (topic, match_count alts 0
       (toLowerCase example_runtime (join (lit '' '') (map cast_text [art_post]))))) topics
   = topicCounts art_topics"
  by (simp add: topics_def example_runtime_def art_post_def art_topics_def)

lemma hello_counts:
  "map (\<lambda>(topic, alts). (topic, match_count alts 0
       (toLowerCase example_runtime (join (lit '' '') (map cast_text [hello_post]))))) topics
   = topicCounts hello_topics"
  by (simp add: topics_def example_runtime_def hello_post_def hello_topics_def)

lemma tie_topic_diversity: "analyzeTopicDiversity example_runtime [tie_post] = Returned tie_topics"
  unfolding analyzeTopicDiversity_def Let_def tie_counts
  by (simp add: keep_greater_def tie_topics_def topics_def arithmetic)

lemma art_topic_diversity: "analyzeTopicDiversity example_runtime [art_post] = Returned art_topics"
  unfolding analyzeTopicDiversity_def Let_def art_counts
  by (simp add: keep_greater_def art_topics_def topics_def arithmetic)

lemma hello_topic_diversity: "analyzeTopicDiversity example_runtime [hello_post] = Returned hello_topics"
  unfolding analyzeTopicDiversity_def Let_def hello_counts
  by (simp add: keep_greater_def hello_topics_def topics_def arithmetic)

text \<open>
  Claim C8, as stated: the primary topic is the category with the highest count, and among
  categories that tie for it the first one declared. On \<open>tie_post\<close>, where tech and
  finance have one match each, the extractor reports finance, the later of the two.
\<close>

theorem first_declared_tie_counterexample:
  "analyzeTopicDiversity example_runtime [tie_post] = Returned tie_topics
   \<and> primaryTopic tie_topics = ''finance''
   \<and> first_highest (topicCounts tie_topics) = Some ''tech''"
  by (simp add: tie_topic_diversity tie_topics_def first_highest_def highest_count_def)

text \<open>
  Claim C8, amended: for every set of posts the extractor returns; its counts are those of
  the eight categories in their declared order (tech, finance, politics, culture, sports,
  humor, philosophy, science); and the primary topic is the category with the highest
  count, the last one declared among the categories that tie for it.
\<close>

theorem primaryTopic_last_highest:
  "\<exists>td. analyzeTopicDiversity rt posts = Returned td
     \<and> map fst (topicCounts td)
         = [''tech'', ''finance'', ''politics'', ''culture'', ''sports'', ''humor'',
            ''philosophy'', ''science'']
     \<and> last_highest (topicCounts td) = Some (primaryTopic td)"
proof -
  define g :: "string \<times> jsstring list \<Rightarrow> string \<times> nat" where "g = (\<lambda>(topic, alts). (topic,
    match_count alts 0 (toLowerCase rt (join (lit '' '') (map cast_text posts)))))"
  define counts where "counts = map g topics"
  have names: "map fst counts = map fst topics"
    by (simp add: counts_def g_def case_prod_unfold comp_def)
  obtain x xs where cons: "counts = x # xs"
    using topics_nonempty by (cases counts) (auto simp: counts_def)
  let ?best = "foldl keep_greater x xs"
  obtain before after where
    split: "x # xs = before @ ?best # after"
    and le: "\<forall>e \<in> set before. snd e \<le> snd ?best"
    and less: "\<forall>e \<in> set after. snd e < snd ?best"
    using foldl_keep_greater_split by blast
  have last: "last_highest counts = Some (fst ?best)"
    using split le less unfolding cons by (rule last_highest_split)
  have red: "reduce keep_greater (map g topics) = Returned ?best"
    using cons by (simp add: counts_def)
  have run: "analyzeTopicDiversity rt posts = Returned
      \<lparr> topicCounts = counts, totalTopicMatches = sum_list (map snd counts),
        activeTopics = length (filter (\<lambda>count. count > 0) (map snd counts)),
        diversityScore = min 100 (fmul (fdiv (real (length (filter (\<lambda>count. count > 0) (map snd counts))))
           (real (length topics))) 100),
        primaryTopic = fst ?best \<rparr>"
    unfolding analyzeTopicDiversity_def Let_def g_def [symmetric] red
    by (simp add: counts_def)
  show ?thesis
    using names last topic_names by (simp add: run)
qed

theorem primaryTopic_last_highest_witness:
  "analyzeTopicDiversity example_runtime [art_post] = Returned art_topics
   \<and> last_highest (topicCounts art_topics) = Some ''culture''
   \<and> last_highest (topicCounts tie_topics) = Some ''finance''"
proof -
  have "last_highest (topicCounts art_topics) = Some (primaryTopic art_topics)"
    using primaryTopic_last_highest [of example_runtime "[art_post]"]
    by (simp add: art_topic_diversity)
  moreover have "last_highest (topicCounts tie_topics) = Some (primaryTopic tie_topics)"
    using primaryTopic_last_highest [of example_runtime "[tie_post]"]
    by (simp add: tie_topic_diversity)
  ultimately show ?thesis
    by (simp add: art_topic_diversity art_topics_def tie_topics_def)
qed


section \<open>Properties of the analysis stage\<close>

lemma external_iq_no_accounts:
  "verifiedAccounts userData = Some [] \<Longrightarrow> external_iq rt env userData = (None, [])"
  by (simp add: external_iq_def)

lemma provider_tier_unconfigured: "provider_tier rt None reply content_of c = (None, [])"
  by (simp add: provider_tier_def)

lemma provider_tier_transport: "fst (provider_tier rt apiKey Threw content_of c) = None"
  by (simp add: provider_tier_def)

lemma try_block_fst:
  "fst (try_block rt env posts c w e t) =
     (case fst (openai_tier rt env) of
        Some r \<Rightarrow> Returned r
      | None \<Rightarrow>
          (case fst (gemini_tier rt env) of
             Some r \<Rightarrow> Returned r
           | None \<Rightarrow> if heuristic_fault env then Threw
                     else Returned (heuristic (random_heuristic env) posts c w e t)))"
  by (cases "openai_tier rt env"; cases "gemini_tier rt env")
     (auto simp: try_block_def split: option.splits)

text \<open>The result of \<open>analyzeWithAI\<close>, tier by tier, once the topics are known.\<close>

lemma analyzeWithAI_fst:
  assumes "analyzeTopicDiversity rt (casts userData) = Returned td"
  shows "fst (analyzeWithAI rt env userData) =
     Returned
       (case fst (external_iq rt env userData) of
          Some r \<Rightarrow> r
        | None \<Rightarrow>
            (case fst (openai_tier rt env) of
               Some r \<Rightarrow> r
             | None \<Rightarrow>
                 (case fst (gemini_tier rt env) of
                    Some r \<Rightarrow> r
                  | None \<Rightarrow>
                      if heuristic_fault env then degraded (random_degraded env) (casts userData)
                      else heuristic (random_heuristic env) (casts userData)
                             (analyzeContentQuality (casts userData))
                             (analyzeWritingStyle rt (casts userData))
                             (calculateEngagementMetrics (casts userData)) td)))"
proof -
  let ?tb = "try_block rt env (casts userData) (analyzeContentQuality (casts userData))
       (analyzeWritingStyle rt (casts userData)) (calculateEngagementMetrics (casts userData)) td"
  have "fst (analyzeWithAI rt env userData) =
      (case fst (external_iq rt env userData) of
         Some r \<Rightarrow> Returned r
       | None \<Rightarrow> (case fst ?tb of Returned r \<Rightarrow> Returned r
                   | Threw \<Rightarrow> Returned (degraded (random_degraded env) (casts userData))))"
    using assms
    by (simp add: analyzeWithAI_def Let_def split: prod.splits option.splits attempt.splits)
  then show ?thesis
    by (simp add: try_block_fst split: option.splits)
qed

text \<open>
  Whatever the tier, a result is in range unless one of its numbers is NaN.
\<close>

lemma provider_tier_in_range:
  assumes "fst (provider_tier rt apiKey reply content_of c) = Some result"
    and "score result \<noteq> NaN" and "confidence result \<noteq> NaN"
  shows "in_range 55 145 (score result) \<and> in_range 0 100 (confidence result)"
proof -
  obtain content where "from_content rt content = Some result"
    using assms(1)
    by (auto simp: provider_tier_def split: if_splits attempt.splits)
  then show ?thesis
    using assms(2,3) by (rule from_content_in_range)
qed

lemma external_iq_in_range:
  assumes "fst (external_iq rt env userData) = Some result" and "score result \<noteq> NaN"
  shows "in_range 55 145 (score result) \<and> in_range 0 100 (confidence result)"
proof -
  obtain a b where r: "result = \<lparr> score = Math_max (Fin 55) (Math_min (Fin 145) a), analysis = b,
      confidence = Fin 85 \<rparr>"
    using assms(1)
    by (auto simp: external_iq_def split: if_splits option.splits attempt.splits)
  have "a \<noteq> NaN"
    using assms(2) r by auto
  then show ?thesis
    using clamp_number [of 55 145 a] by (simp add: r in_range_def)
qed

lemma analyzeWithAI_in_range:
  assumes "fst (analyzeWithAI rt env userData) = Returned result"
    and "score result \<noteq> NaN" and "confidence result \<noteq> NaN"
  shows "in_range 55 145 (score result) \<and> in_range 0 100 (confidence result)"
proof -
  obtain td where td: "analyzeTopicDiversity rt (casts userData) = Returned td"
    using analyzeTopicDiversity_returns by blast
  from analyzeWithAI_fst [OF td, of env] assms(1)
  consider "fst (external_iq rt env userData) = Some result"
    | "fst (openai_tier rt env) = Some result"
    | "fst (gemini_tier rt env) = Some result"
    | "result = degraded (random_degraded env) (casts userData)"
    | "result = heuristic (random_heuristic env) (casts userData)
         (analyzeContentQuality (casts userData)) (analyzeWritingStyle rt (casts userData))
         (calculateEngagementMetrics (casts userData)) td"
    by (auto split: option.splits if_splits)
  then show ?thesis
  proof cases
    case 1
    then show ?thesis using assms(2) by (rule external_iq_in_range)
  next
    case 2
    then show ?thesis
      unfolding openai_tier_def using assms(2,3) by (rule provider_tier_in_range)
  next
    case 3
    then show ?thesis
      unfolding gemini_tier_def using assms(2,3) by (rule provider_tier_in_range)
  next
    case 4
    then show ?thesis by (simp add: degraded_in_range)
  next
    case 5
    then show ?thesis by (simp add: heuristic_in_range)
  qed
qed

subsection \<open>The worked examples\<close>

text \<open>The roundings that the heuristic meets on \<open>hello_post\<close>.\<close>

lemma hello_rounding:
  "double (59447515081290545 / 18014398509481984) = 3715469692580659 / 1125899906842624"
  "double (3715469692580659 / 1125899906842624) = 3715469692580659 / 1125899906842624"
  "double (5 / 2) = 5 / 2"
  "double (3715469692580659 / 4503599627370496) = 3715469692580659 / 4503599627370496"
  "double (89 / 4) = 89 / 4"
  "double (103920561401574195 / 4503599627370496) = 6495035087598387 / 281474976710656"
  "double (5 / 8) = 5 / 8"
  "double (6670956948042547 / 281474976710656) = 6670956948042547 / 281474976710656"
  "double (36051983070490841763510938983465 / 2535301200456458802993406410752) = 500321771103191 / 35184372088832"
  "double (2963227817321431 / 35184372088832) = 2963227817321431 / 35184372088832"
  "double (3602879701896397 / 18014398509481984) = 3602879701896397 / 18014398509481984"
  "double (1520775522170469069 / 18014398509481984) = 5940529383478395 / 70368744177664"
  "double (5940529383478395 / 70368744177664) = 5940529383478395 / 70368744177664"
  "double (36051983070490841763510938983465 / 5070602400912917605986812821504) = 500321771103191 / 70368744177664"
  "double (4159496468341719 / 70368744177664) = 4159496468341719 / 70368744177664"
  "double (83 / 2) = 83 / 2"
  "double (237 / 10) = 6670956948042547 / 281474976710656"
  "double (33 / 10) = 3715469692580659 / 1125899906842624"
proof -
  show "double (59447515081290545 / 18014398509481984) = 3715469692580659 / 1125899906842624"
    by (rule double_evalI [where k = "- 51" and m = 7430939385161318]) (simp_all add: round_even_def Let_def)
  show "double (3715469692580659 / 1125899906842624) = 3715469692580659 / 1125899906842624"
    by (rule double_evalI [where k = "- 51" and m = 7430939385161318]) (simp_all add: round_even_def Let_def)
  show "double (5 / 2) = 5 / 2"
    by (rule double_evalI [where k = "- 51" and m = 5629499534213120]) (simp_all add: round_even_def Let_def)
  show "double (3715469692580659 / 4503599627370496) = 3715469692580659 / 4503599627370496"
    by (rule double_evalI [where k = "- 53" and m = 7430939385161318]) (simp_all add: round_even_def Let_def)
  show "double (89 / 4) = 89 / 4"
    by (rule double_evalI [where k = "- 48" and m = 6262818231812096]) (simp_all add: round_even_def Let_def)
  show "double (103920561401574195 / 4503599627370496) = 6495035087598387 / 281474976710656"
    by (rule double_evalI [where k = "- 48" and m = 6495035087598387]) (simp_all add: round_even_def Let_def)
  show "double (5 / 8) = 5 / 8"
    by (rule double_evalI [where k = "- 53" and m = 5629499534213120]) (simp_all add: round_even_def Let_def)
  show "double (6670956948042547 / 281474976710656) = 6670956948042547 / 281474976710656"
    by (rule double_evalI [where k = "- 48" and m = 6670956948042547]) (simp_all add: round_even_def Let_def)
  show "double (36051983070490841763510938983465 / 2535301200456458802993406410752) = 500321771103191 / 35184372088832"
    by (rule double_evalI [where k = "- 49" and m = 8005148337651056]) (simp_all add: round_even_def Let_def)
  show "double (2963227817321431 / 35184372088832) = 2963227817321431 / 35184372088832"
    by (rule double_evalI [where k = "- 46" and m = 5926455634642862]) (simp_all add: round_even_def Let_def)
  show "double (3602879701896397 / 18014398509481984) = 3602879701896397 / 18014398509481984"
    by (rule double_evalI [where k = "- 55" and m = 7205759403792794]) (simp_all add: round_even_def Let_def)
  show "double (1520775522170469069 / 18014398509481984) = 5940529383478395 / 70368744177664"
    by (rule double_evalI [where k = "- 46" and m = 5940529383478395]) (simp_all add: round_even_def Let_def)
  show "double (5940529383478395 / 70368744177664) = 5940529383478395 / 70368744177664"
    by (rule double_evalI [where k = "- 46" and m = 5940529383478395]) (simp_all add: round_even_def Let_def)
  show "double (36051983070490841763510938983465 / 5070602400912917605986812821504) = 500321771103191 / 70368744177664"
    by (rule double_evalI [where k = "- 50" and m = 8005148337651056]) (simp_all add: round_even_def Let_def)
  show "double (4159496468341719 / 70368744177664) = 4159496468341719 / 70368744177664"
    by (rule double_evalI [where k = "- 47" and m = 8318992936683438]) (simp_all add: round_even_def Let_def)
  show "double (83 / 2) = 83 / 2"
    by (rule double_evalI [where k = "- 47" and m = 5840605766746112]) (simp_all add: round_even_def Let_def)
  show "double (237 / 10) = 6670956948042547 / 281474976710656"
    by (rule double_evalI [where k = "- 48" and m = 6670956948042547]) (simp_all add: round_even_def Let_def)
  show "double (33 / 10) = 3715469692580659 / 1125899906842624"
    by (rule double_evalI [where k = "- 51" and m = 7430939385161318]) (simp_all add: round_even_def Let_def)
qed

lemma hello_content:
  "analyzeContentQuality [hello_post] =
     \<lparr> avgLength = 11, longPostRatio = 0, shortPostRatio = 1, hasLinks = 0, hasMentions = 0,
       hasHashtags = 0, hasQuestions = 0, hasExclamations = 0 \<rparr>"
  by (simp add: analyzeContentQuality_def ratio_def hello_post_def link_at_def Let_def arithmetic)

lemma hello_writing:
  "analyzeWritingStyle example_runtime [hello_post] =
     \<lparr> avgWordsPerSentence = 2, avgWordLength = 5, vocabularyRatio = 1, properCapitalization = 1,
       totalWords = 2, uniqueWordsCount = 2 \<rparr>"
  by (simp add: analyzeWritingStyle_def hello_post_def example_runtime_def
        Let_def is_space_def is_stop_def is_word_def is_upper_def trim_def arithmetic)

lemma hello_engagement:
  "calculateEngagementMetrics [hello_post] =
     \<lparr> totalEngagement = 5, engagementPerPost = 5, highEngagementRatio = 0, viralPostRatio = 0,
       consistencyScore = 0 \<rparr>"
  by (simp add: calculateEngagementMetrics_def calculateConsistencyScore_def
        ratio_def interactions_def likes_def recasts_def replies_def hello_post_def Let_def arithmetic)

lemma hello_heuristic:
  "heuristic (1 / 2) [hello_post] (analyzeContentQuality [hello_post])
     (analyzeWritingStyle example_runtime [hello_post]) (calculateEngagementMetrics [hello_post])
     hello_topics
   = hello_result"
proof -
  have r1: "Math_round (5940529383478395 / 70368744177664) = 84"
    unfolding Math_round_def by (simp add: floor_eq_iff)
  have r2: "Math_round (4159496468341719 / 70368744177664) = 59"
    unfolding Math_round_def by (simp add: floor_eq_iff)
  show ?thesis
    unfolding hello_content hello_writing hello_engagement
    by (simp add: heuristic_def Let_def comprehensiveScore_def contentQualityScore_def
          writingStyleScore_def engagementScore_def hello_topics_def hello_report_def
          hello_result_def arithmetic hello_rounding r1 r2)
qed

lemma hello_degraded:
  "degraded (1 / 2) [hello_post]
     = \<lparr> score = Fin 85, analysis = FallbackText 1 5 85, confidence = Fin 42 \<rparr>"
proof -
  have r1: "Math_round 85 = 85"
    using Math_round_of_int [of 85] by simp
  have r2: "Math_round (83 / 2) = 42"
    unfolding Math_round_def by (simp add: floor_eq_iff)
  show ?thesis
    by (simp add: degraded_def Let_def likes_def hello_post_def arithmetic hello_rounding r1 r2)
qed

text \<open>
  The heuristic on the three posts of \<open>question_user\<close>: the base score is the number
  just below 91.5, and the score is 91.
\<close>

lemma question_rounding:
  "double (15 / 4) = 15 / 4"
  "double (17 / 5) = 7656119366529843 / 2251799813685248"
  "double (1 / 3) = 6004799503160661 / 18014398509481984"
  "double (113490710609736495 / 18014398509481984) = 7093169413108531 / 1125899906842624"
  "double (7093169413108531 / 1125899906842624) = 7093169413108531 / 1125899906842624"
  "double (40870166618387251 / 1125899906842624) = 2554385413649203 / 70368744177664"
  "double (2554385413649203 / 70368744177664) = 2554385413649203 / 70368744177664"
  "double (30023997515803305 / 2251799813685248) = 3752999689475413 / 281474976710656"
  "double (15 / 2) = 15 / 2"
  "double (5864062014805333 / 281474976710656) = 5864062014805333 / 281474976710656"
  "double (14308311316125013 / 281474976710656) = 3577077829031253 / 70368744177664"
  "double (22968358099589529 / 2251799813685248) = 2871044762448691 / 281474976710656"
  "double (17179356078573703 / 281474976710656) = 2147419509821713 / 35184372088832"
  "double (135107988821114875 / 4503599627370496) = 30"
  "double (2554385413649203 / 281474976710656) = 2554385413649203 / 281474976710656"
  "double (2147419509821713 / 140737488355328) = 2147419509821713 / 140737488355328"
  "double (6849224433292629 / 281474976710656) = 6849224433292629 / 281474976710656"
  "double (21 / 2) = 21 / 2"
  "double (9804711688754517 / 281474976710656) = 2451177922188629 / 70368744177664"
  "double (2451177922188629 / 70368744177664) = 2451177922188629 / 70368744177664"
  "double (13246948772384994953965113110255 / 633825300114114700748351602688) = 5882827013252709 / 281474976710656"
  "double (25586075382998629 / 281474976710656) = 6396518845749657 / 70368744177664"
  "double (10808639105689191 / 18014398509481984) = 1351079888211149 / 2251799813685248"
  "double (206039682952200173 / 2251799813685248) = 6438740092256255 / 70368744177664"
  "double (6438740092256255 / 70368744177664) = 6438740092256255 / 70368744177664"
  "double (13246948772384994953965113110255 / 1267650600228229401496703205376) = 5882827013252709 / 562949953421312"
  "double (37408024404846181 / 562949953421312) = 4676003050605773 / 70368744177664"
proof -
  show "double (15 / 4) = 15 / 4"
    by (rule double_evalI [where k = "- 51" and m = 8444249301319680]) (simp_all add: round_even_def Let_def)
  show "double (17 / 5) = 7656119366529843 / 2251799813685248"
    by (rule double_evalI [where k = "- 51" and m = 7656119366529843]) (simp_all add: round_even_def Let_def)
  show "double (1 / 3) = 6004799503160661 / 18014398509481984"
    by (rule double_evalI [where k = "- 54" and m = 6004799503160661]) (simp_all add: round_even_def Let_def)
  show "double (113490710609736495 / 18014398509481984) = 7093169413108531 / 1125899906842624"
    by (rule double_evalI [where k = "- 50" and m = 7093169413108531]) (simp_all add: round_even_def Let_def)
  show "double (7093169413108531 / 1125899906842624) = 7093169413108531 / 1125899906842624"
    by (rule double_evalI [where k = "- 50" and m = 7093169413108531]) (simp_all add: round_even_def Let_def)
  show "double (40870166618387251 / 1125899906842624) = 2554385413649203 / 70368744177664"
    by (rule double_evalI [where k = "- 47" and m = 5108770827298406]) (simp_all add: round_even_def Let_def)
  show "double (2554385413649203 / 70368744177664) = 2554385413649203 / 70368744177664"
    by (rule double_evalI [where k = "- 47" and m = 5108770827298406]) (simp_all add: round_even_def Let_def)
  show "double (30023997515803305 / 2251799813685248) = 3752999689475413 / 281474976710656"
    by (rule double_evalI [where k = "- 49" and m = 7505999378950826]) (simp_all add: round_even_def Let_def)
  show "double (15 / 2) = 15 / 2"
    by (rule double_evalI [where k = "- 50" and m = 8444249301319680]) (simp_all add: round_even_def Let_def)
  show "double (5864062014805333 / 281474976710656) = 5864062014805333 / 281474976710656"
    by (rule double_evalI [where k = "- 48" and m = 5864062014805333]) (simp_all add: round_even_def Let_def)
  show "double (14308311316125013 / 281474976710656) = 3577077829031253 / 70368744177664"
    by (rule double_evalI [where k = "- 47" and m = 7154155658062506]) (simp_all add: round_even_def Let_def)
  show "double (22968358099589529 / 2251799813685248) = 2871044762448691 / 281474976710656"
    by (rule double_evalI [where k = "- 49" and m = 5742089524897382]) (simp_all add: round_even_def Let_def)
  show "double (17179356078573703 / 281474976710656) = 2147419509821713 / 35184372088832"
    by (rule double_evalI [where k = "- 47" and m = 8589678039286852]) (simp_all add: round_even_def Let_def)
  show "double (135107988821114875 / 4503599627370496) = 30"
    by (rule double_evalI [where k = "- 48" and m = 8444249301319680]) (simp_all add: round_even_def Let_def)
  show "double (2554385413649203 / 281474976710656) = 2554385413649203 / 281474976710656"
    by (rule double_evalI [where k = "- 49" and m = 5108770827298406]) (simp_all add: round_even_def Let_def)
  show "double (2147419509821713 / 140737488355328) = 2147419509821713 / 140737488355328"
    by (rule double_evalI [where k = "- 49" and m = 8589678039286852]) (simp_all add: round_even_def Let_def)
  show "double (6849224433292629 / 281474976710656) = 6849224433292629 / 281474976710656"
    by (rule double_evalI [where k = "- 48" and m = 6849224433292629]) (simp_all add: round_even_def Let_def)
  show "double (21 / 2) = 21 / 2"
    by (rule double_evalI [where k = "- 49" and m = 5910974510923776]) (simp_all add: round_even_def Let_def)
  show "double (9804711688754517 / 281474976710656) = 2451177922188629 / 70368744177664"
    by (rule double_evalI [where k = "- 47" and m = 4902355844377258]) (simp_all add: round_even_def Let_def)
  show "double (2451177922188629 / 70368744177664) = 2451177922188629 / 70368744177664"
    by (rule double_evalI [where k = "- 47" and m = 4902355844377258]) (simp_all add: round_even_def Let_def)
  show "double (13246948772384994953965113110255 / 633825300114114700748351602688) = 5882827013252709 / 281474976710656"
    by (rule double_evalI [where k = "- 48" and m = 5882827013252709]) (simp_all add: round_even_def Let_def)
  show "double (25586075382998629 / 281474976710656) = 6396518845749657 / 70368744177664"
    by (rule double_evalI [where k = "- 46" and m = 6396518845749657]) (simp_all add: round_even_def Let_def)
  show "double (10808639105689191 / 18014398509481984) = 1351079888211149 / 2251799813685248"
    by (rule double_evalI [where k = "- 53" and m = 5404319552844596]) (simp_all add: round_even_def Let_def)
  show "double (206039682952200173 / 2251799813685248) = 6438740092256255 / 70368744177664"
    by (rule double_evalI [where k = "- 46" and m = 6438740092256255]) (simp_all add: round_even_def Let_def)
  show "double (6438740092256255 / 70368744177664) = 6438740092256255 / 70368744177664"
    by (rule double_evalI [where k = "- 46" and m = 6438740092256255]) (simp_all add: round_even_def Let_def)
  show "double (13246948772384994953965113110255 / 1267650600228229401496703205376) = 5882827013252709 / 562949953421312"
    by (rule double_evalI [where k = "- 49" and m = 5882827013252709]) (simp_all add: round_even_def Let_def)
  show "double (37408024404846181 / 562949953421312) = 4676003050605773 / 70368744177664"
    by (rule double_evalI [where k = "- 46" and m = 4676003050605773]) (simp_all add: round_even_def Let_def)
qed

lemma question_counts:
  "map (\<lambda>(topic, alts). (topic, match_count alts 0
       (toLowerCase example_runtime (join (lit '' '') (map cast_text [question_post, question_post, question_post])))))
     topics
   = topicCounts hello_topics"
  by (simp add: topics_def example_runtime_def question_post_def hello_topics_def)

lemma question_topic_diversity:
  "analyzeTopicDiversity example_runtime [question_post, question_post, question_post] = Returned hello_topics"
  unfolding analyzeTopicDiversity_def Let_def question_counts
  by (simp add: keep_greater_def hello_topics_def topics_def arithmetic)

lemma question_content:
  "analyzeContentQuality [question_post, question_post, question_post] =
     \<lparr> avgLength = 21, longPostRatio = 0, shortPostRatio = 1, hasLinks = 0, hasMentions = 0,
       hasHashtags = 0, hasQuestions = 1, hasExclamations = 0 \<rparr>"
  by (simp add: analyzeContentQuality_def ratio_def question_post_def link_at_def Let_def arithmetic)

lemma question_writing:
  "analyzeWritingStyle example_runtime [question_post, question_post, question_post] =
     \<lparr> avgWordsPerSentence = 3.75, avgWordLength = double 3.4, vocabularyRatio = double (1 / 3),
       properCapitalization = 1, totalWords = 15, uniqueWordsCount = 5 \<rparr>"
  by (simp add: analyzeWritingStyle_def question_post_def example_runtime_def
        Let_def is_space_def is_stop_def is_word_def is_upper_def trim_def arithmetic question_rounding)

lemma question_engagement:
  "calculateEngagementMetrics [question_post, question_post, question_post] =
     \<lparr> totalEngagement = 72, engagementPerPost = 24, highEngagementRatio = 1, viralPostRatio = 0,
       consistencyScore = 100 \<rparr>"
  by (simp add: calculateEngagementMetrics_def calculateConsistencyScore_def Math_sqrt_def Math_pow2_def
        ratio_def interactions_def likes_def recasts_def replies_def question_post_def Let_def arithmetic)

lemma question_heuristic:
  "score (heuristic (1 / 2) [question_post, question_post, question_post]
     (analyzeContentQuality [question_post, question_post, question_post])
     (analyzeWritingStyle example_runtime [question_post, question_post, question_post])
     (calculateEngagementMetrics [question_post, question_post, question_post]) hello_topics)
   = Fin 91
   \<and> confidence (heuristic (1 / 2) [question_post, question_post, question_post]
     (analyzeContentQuality [question_post, question_post, question_post])
     (analyzeWritingStyle example_runtime [question_post, question_post, question_post])
     (calculateEngagementMetrics [question_post, question_post, question_post]) hello_topics)
   = Fin 66"
proof -
  have r1: "Math_round (6438740092256255 / 70368744177664) = 91"
    unfolding Math_round_def by (simp add: floor_eq_iff)
  have r2: "Math_round (4676003050605773 / 70368744177664) = 66"
    unfolding Math_round_def by (simp add: floor_eq_iff)
  show ?thesis
    unfolding question_content question_writing question_engagement
    by (simp add: heuristic_def Let_def comprehensiveScore_def contentQualityScore_def
          writingStyleScore_def engagementScore_def hello_topics_def
          arithmetic question_rounding r1 r2)
qed

lemma question_casts: "casts question_user = [question_post, question_post, question_post]"
  by (simp add: question_user_def)

lemma question_external: "external_iq rt env question_user = (None, [])"
  by (simp add: external_iq_def question_user_def)

lemma hello_casts: "casts hello_user = [hello_post]"
  by (simp add: hello_user_def)

lemma hello_external: "external_iq rt env hello_user = (None, [])"
  by (simp add: external_iq_no_accounts hello_user_def)

lemma offline_tiers:
  "openai_tier rt offline_env = (None, [])"
  "gemini_tier rt offline_env = (None, [])"
  by (simp_all add: openai_tier_def gemini_tier_def provider_tier_def offline_env_def)

lemma faulty_tiers:
  "openai_tier rt faulty_env = (None, [])"
  "gemini_tier rt faulty_env = (None, [])"
  by (simp_all add: openai_tier_def gemini_tier_def provider_tier_def faulty_env_def offline_env_def)

lemma transport_tiers:
  "openai_tier rt transport_env = (None, [CallOpenAI])"
  "gemini_tier rt transport_env = (None, [CallGemini])"
  by (simp_all add: openai_tier_def gemini_tier_def provider_tier_def transport_env_def offline_env_def)

lemma incomplete_openai:
  "openai_tier example_runtime incomplete_env = (Some incomplete_result, [CallOpenAI])"
  by (simp add: openai_tier_def provider_tier_def incomplete_env_def transport_env_def
        offline_env_def openai_content_def opt_member_def from_content_def brace_match_def
        example_runtime_def incomplete_result_def)

lemma transport_random:
  "random_heuristic transport_env = 1 / 2" "\<not> heuristic_fault transport_env"
  by (simp_all add: transport_env_def offline_env_def)

lemma hello_transport:
  "analyzeWithAI example_runtime transport_env hello_user
     = (Returned hello_result, [CallOpenAI, CallGemini])"
  unfolding analyzeWithAI_def hello_external hello_casts hello_topic_diversity try_block_def
    transport_tiers Let_def
  by (simp add: transport_random hello_heuristic)

lemma question_offline:
  "fst (analyzeWithAI example_runtime offline_env question_user)
     = Returned (heuristic (1 / 2) [question_post, question_post, question_post]
         (analyzeContentQuality [question_post, question_post, question_post])
         (analyzeWritingStyle example_runtime [question_post, question_post, question_post])
         (calculateEngagementMetrics [question_post, question_post, question_post]) hello_topics)
   \<and> score (heuristic (1 / 2) [question_post, question_post, question_post]
         (analyzeContentQuality [question_post, question_post, question_post])
         (analyzeWritingStyle example_runtime [question_post, question_post, question_post])
         (calculateEngagementMetrics [question_post, question_post, question_post]) hello_topics) = Fin 91
   \<and> confidence (heuristic (1 / 2) [question_post, question_post, question_post]
         (analyzeContentQuality [question_post, question_post, question_post])
         (analyzeWritingStyle example_runtime [question_post, question_post, question_post])
         (calculateEngagementMetrics [question_post, question_post, question_post]) hello_topics) = Fin 66"
proof -
  have rnd: "random_heuristic offline_env = 1 / 2" "\<not> heuristic_fault offline_env"
    by (simp_all add: offline_env_def)
  have "fst (analyzeWithAI example_runtime offline_env question_user)
     = Returned (heuristic (1 / 2) [question_post, question_post, question_post]
         (analyzeContentQuality [question_post, question_post, question_post])
         (analyzeWritingStyle example_runtime [question_post, question_post, question_post])
         (calculateEngagementMetrics [question_post, question_post, question_post]) hello_topics)"
    unfolding analyzeWithAI_def question_external question_casts question_topic_diversity try_block_def
      offline_tiers Let_def
    by (simp add: rnd)
  then show ?thesis
    using question_heuristic by simp
qed

lemma hello_incomplete:
  "analyzeWithAI example_runtime incomplete_env hello_user
     = (Returned incomplete_result, [CallOpenAI])"
  by (simp add: analyzeWithAI_def hello_external hello_casts hello_topic_diversity try_block_def
        incomplete_openai Let_def)

subsection \<open>Claims about the analysis stage\<close>

text \<open>
  Claim C1: on every path the result has a score between 55 and 145 and a confidence
  between 0 and 100. The code clamps on every path, but \<open>Math.min\<close> and
  \<open>Math.max\<close> pass NaN through: when the first provider answers with the JSON text
  \<open>{"analysis":"ok"}\<close>, the result of \<open>analyzeWithAI\<close> has the score NaN and the
  confidence NaN, which lie in no range.
\<close>

theorem incomplete_payload_out_of_range:
  "fst (analyzeWithAI example_runtime incomplete_env hello_user) = Returned incomplete_result
   \<and> score incomplete_result = NaN \<and> confidence incomplete_result = NaN
   \<and> \<not> in_range 55 145 (score incomplete_result)
   \<and> \<not> in_range 0 100 (confidence incomplete_result)"
  by (simp add: hello_incomplete incomplete_result_def in_range_def)

text \<open>
  Claim C7: a provider payload that parses but lacks a required member is skipped like a
  transport failure. The code builds a result from it instead: with the payload
  \<open>{"analysis":"ok"}\<close> from the first provider, \<open>analyzeWithAI\<close> returns that
  result and never asks the second provider, whereas a transport failure of both
  providers ends in the heuristic.
\<close>

theorem incomplete_payload_not_skipped:
  "analyzeWithAI example_runtime incomplete_env hello_user
     = (Returned incomplete_result, [CallOpenAI])
   \<and> analysis incomplete_result = ProviderText (String (lit ''ok''))
   \<and> analyzeWithAI example_runtime transport_env hello_user
     = (Returned hello_result, [CallOpenAI, CallGemini])
   \<and> analysis hello_result = HeuristicText hello_report"
  by (simp add: hello_incomplete hello_transport incomplete_result_def hello_result_def)

text \<open>The four scores are binary64 values, being rounded sums or products cut off at 100.\<close>

lemma scores_rounded:
  "double (contentQualityScore c) = contentQualityScore c"
  "double (writingStyleScore w) = writingStyleScore w"
  "double (engagementScore e) = engagementScore e"
  by (simp_all add: contentQualityScore_def writingStyleScore_def engagementScore_def fadd_def
        double_min_100)

lemma diversityScore_rounded:
  assumes "analyzeTopicDiversity rt posts = Returned td"
  shows "double (diversityScore td) = diversityScore td"
proof -
  obtain x where "diversityScore td = min 100 (double x)"
    using assms
    by (auto simp: analyzeTopicDiversity_def Let_def fmul_def split: attempt.splits)
  then show ?thesis
    by (simp add: double_min_100)
qed

text \<open>
  Claim C3: for a non-empty set of posts, when neither the external score nor a provider
  produces a result (and the heuristic does not fail), the result is the heuristic's:
  its score is \<open>clamp(55, 145, round(70 + 0.6 * composite + 0.2 * postCount + jitter))\<close>
  and its confidence \<open>clamp(30, 85, round(50 + 2 * postCount + 0.3 * composite))\<close>,
  where \<open>composite\<close> is a quarter of the sum of the four scores computed from the four
  extractors; and with the same random value the result is the same in every such
  environment, so it is a function of the posts. The formulas are read in the arithmetic
  of the program, from the left: every sum and product is rounded to a binary64 value,
  and \<open>0.6\<close>, \<open>0.2\<close> and \<open>0.3\<close> are the values nearest to these decimals. The code
  multiplies each of the four scores by \<open>0.25\<close> and adds the products, and it clamps the
  confidence before it rounds it; both give what the formulas give.
\<close>

theorem heuristic_formula:
  assumes "casts userData \<noteq> []" and "falls_to_heuristic rt env userData"
  shows "\<exists>r td composite.
      fst (analyzeWithAI rt env userData) = Returned r
    \<and> analyzeTopicDiversity rt (casts userData) = Returned td
    \<and> composite = fmul 0.25
          (fadd (fadd (fadd (contentQualityScore (analyzeContentQuality (casts userData)))
                            (writingStyleScore (analyzeWritingStyle rt (casts userData))))
                      (engagementScore (calculateEngagementMetrics (casts userData))))
                (diversityScore td))
    \<and> score r = Fin (of_int (clamp 55 145
          (Math_round (fadd (fadd (fadd 70 (fmul (double 0.6) composite))
                                  (fmul (double 0.2) (real (length (casts userData)))))
                            (jitter env)))))
    \<and> confidence r = Fin (of_int (clamp 30 85
          (Math_round (fadd (fadd 50 (fmul 2 (real (length (casts userData)))))
                            (fmul (double 0.3) composite)))))
    \<and> (\<forall>env'. falls_to_heuristic rt env' userData \<and> random_heuristic env' = random_heuristic env
          \<longrightarrow> fst (analyzeWithAI rt env' userData) = Returned r)"
proof -
  obtain td where td: "analyzeTopicDiversity rt (casts userData) = Returned td"
    using analyzeTopicDiversity_returns by blast
  let ?c = "analyzeContentQuality (casts userData)"
  let ?w = "analyzeWritingStyle rt (casts userData)"
  let ?e = "calculateEngagementMetrics (casts userData)"
  let ?r = "heuristic (random_heuristic env) (casts userData) ?c ?w ?e td"
  define composite where "composite = fmul 0.25
     (fadd (fadd (fadd (contentQualityScore ?c) (writingStyleScore ?w)) (engagementScore ?e))
        (diversityScore td))"
  have comp: "comprehensiveScore ?c ?w ?e td = composite"
    unfolding comprehensiveScore_def composite_def
    using scores_rounded(1) scores_rounded(2) scores_rounded(3) diversityScore_rounded [OF td]
    by (rule quarter_of_sum)
  have commute: "fmul x y = fmul y x" for x y
    by (simp add: fmul_def mult.commute)
  have run: "fst (analyzeWithAI rt env' userData)
      = Returned (heuristic (random_heuristic env') (casts userData) ?c ?w ?e td)"
    if "falls_to_heuristic rt env' userData" for env'
    using that analyzeWithAI_fst [OF td, of env'] by (simp add: falls_to_heuristic_def)
  have sc: "score ?r = Fin (of_int (clamp 55 145
      (Math_round (fadd (fadd (fadd 70 (fmul (double 0.6) composite))
         (fmul (double 0.2) (real (length (casts userData))))) (jitter env)))))"
    by (simp add: heuristic_def Let_def comp clamp_def jitter_def commute [of composite]
          commute [of "real (length (casts userData))"])
  have "Math_round (max 30 (min 85 x)) = max 30 (min 85 (Math_round x))" for x
    using Math_round_clamp [of 30 85 x] by simp
  then have cf: "confidence ?r = Fin (of_int (clamp 30 85
      (Math_round (fadd (fadd 50 (fmul 2 (real (length (casts userData)))))
         (fmul (double 0.3) composite)))))"
    by (simp add: heuristic_def Let_def comp clamp_def commute [of composite]
          commute [of "real (length (casts userData))"])
  have det: "\<forall>env'. falls_to_heuristic rt env' userData \<and> random_heuristic env' = random_heuristic env
      \<longrightarrow> fst (analyzeWithAI rt env' userData) = Returned ?r"
    using run by auto
  show ?thesis
    using run [OF assms(2)] td composite_def sc cf det by blast
qed

text \<open>
  On \<open>hello_user\<close> the formulas give the score 84 and the confidence 59, in both
  environments that end in the heuristic; on \<open>question_user\<close>, where the base score is
  the binary64 value just below 91.5, they give the score 91 and the confidence 66.
\<close>

theorem heuristic_formula_witness:
  "casts hello_user \<noteq> [] \<and> falls_to_heuristic example_runtime transport_env hello_user
   \<and> falls_to_heuristic example_runtime offline_env hello_user
   \<and> random_heuristic offline_env = random_heuristic transport_env
   \<and> fst (analyzeWithAI example_runtime transport_env hello_user) = Returned hello_result
   \<and> fst (analyzeWithAI example_runtime offline_env hello_user) = Returned hello_result
   \<and> score hello_result = Fin 84 \<and> confidence hello_result = Fin 59
   \<and> casts question_user \<noteq> [] \<and> falls_to_heuristic example_runtime offline_env question_user
   \<and> (\<exists>r composite.
         fst (analyzeWithAI example_runtime offline_env question_user) = Returned r
       \<and> composite = fmul 0.25
           (fadd (fadd (fadd (contentQualityScore (analyzeContentQuality (casts question_user)))
                             (writingStyleScore (analyzeWritingStyle example_runtime (casts question_user))))
                       (engagementScore (calculateEngagementMetrics (casts question_user))))
                 (diversityScore hello_topics))
       \<and> clamp 55 145
           (Math_round (fadd (fadd (fadd 70 (fmul (double 0.6) composite))
                                   (fmul (double 0.2) (real (length (casts question_user)))))
                             (jitter offline_env))) = 91
       \<and> clamp 30 85
           (Math_round (fadd (fadd 50 (fmul 2 (real (length (casts question_user)))))
                             (fmul (double 0.3) composite))) = 66
       \<and> score r = Fin 91 \<and> confidence r = Fin 66)"
proof -
  have h1: "casts hello_user \<noteq> []"
    by (simp add: hello_casts)
  have h2: "falls_to_heuristic example_runtime transport_env hello_user"
    by (simp add: falls_to_heuristic_def hello_external transport_tiers transport_random)
  have fault: "\<not> heuristic_fault offline_env"
    by (simp add: offline_env_def)
  then have h3: "falls_to_heuristic example_runtime offline_env hello_user"
    by (simp add: falls_to_heuristic_def hello_external offline_tiers)
  have h4: "random_heuristic offline_env = random_heuristic transport_env"
    by (simp add: transport_env_def)
  obtain r where r: "fst (analyzeWithAI example_runtime transport_env hello_user) = Returned r"
    and same: "\<forall>env'. falls_to_heuristic example_runtime env' hello_user
        \<and> random_heuristic env' = random_heuristic transport_env
        \<longrightarrow> fst (analyzeWithAI example_runtime env' hello_user) = Returned r"
    using heuristic_formula [OF h1 h2] by blast
  have "r = hello_result"
    using r by (simp add: hello_transport)
  moreover have "fst (analyzeWithAI example_runtime offline_env hello_user) = Returned r"
    using same h3 h4 by blast
  ultimately have hello: "fst (analyzeWithAI example_runtime transport_env hello_user) = Returned hello_result
      \<and> fst (analyzeWithAI example_runtime offline_env hello_user) = Returned hello_result
      \<and> score hello_result = Fin 84 \<and> confidence hello_result = Fin 59"
    using r by (simp add: hello_result_def)
  have q1: "casts question_user \<noteq> []"
    by (simp add: question_casts)
  have q2: "falls_to_heuristic example_runtime offline_env question_user"
    using fault by (simp add: falls_to_heuristic_def question_external offline_tiers)
  obtain q td composite where
    run: "fst (analyzeWithAI example_runtime offline_env question_user) = Returned q"
    and td: "analyzeTopicDiversity example_runtime (casts question_user) = Returned td"
    and composite: "composite = fmul 0.25
        (fadd (fadd (fadd (contentQualityScore (analyzeContentQuality (casts question_user)))
                          (writingStyleScore (analyzeWritingStyle example_runtime (casts question_user))))
                    (engagementScore (calculateEngagementMetrics (casts question_user))))
              (diversityScore td))"
    and sc: "score q = Fin (of_int (clamp 55 145
        (Math_round (fadd (fadd (fadd 70 (fmul (double 0.6) composite))
                                (fmul (double 0.2) (real (length (casts question_user)))))
                          (jitter offline_env)))))"
    and cf: "confidence q = Fin (of_int (clamp 30 85
        (Math_round (fadd (fadd 50 (fmul 2 (real (length (casts question_user)))))
                          (fmul (double 0.3) composite)))))"
    using heuristic_formula [OF q1 q2] by blast
  have same_topics: "td = hello_topics"
    using td unfolding question_casts question_topic_diversity by simp
  have q91: "score q = Fin 91" "confidence q = Fin 66"
    using run question_offline by simp_all
  have "clamp 55 145
        (Math_round (fadd (fadd (fadd 70 (fmul (double 0.6) composite))
                                (fmul (double 0.2) (real (length (casts question_user)))))
                          (jitter offline_env))) = 91"
    using sc unfolding q91 by simp
  moreover have "clamp 30 85
        (Math_round (fadd (fadd 50 (fmul 2 (real (length (casts question_user)))))
                          (fmul (double 0.3) composite))) = 66"
    using cf unfolding q91 by simp
  ultimately have question: "\<exists>r composite.
         fst (analyzeWithAI example_runtime offline_env question_user) = Returned r
       \<and> composite = fmul 0.25
           (fadd (fadd (fadd (contentQualityScore (analyzeContentQuality (casts question_user)))
                             (writingStyleScore (analyzeWritingStyle example_runtime (casts question_user))))
                       (engagementScore (calculateEngagementMetrics (casts question_user))))
                 (diversityScore hello_topics))
       \<and> clamp 55 145
           (Math_round (fadd (fadd (fadd 70 (fmul (double 0.6) composite))
                                   (fmul (double 0.2) (real (length (casts question_user)))))
                             (jitter offline_env))) = 91
       \<and> clamp 30 85
           (Math_round (fadd (fadd 50 (fmul 2 (real (length (casts question_user)))))
                             (fmul (double 0.3) composite))) = 66
       \<and> score r = Fin 91 \<and> confidence r = Fin 66"
    using run composite q91 unfolding same_topics by blast
  show ?thesis
    using h1 h2 h3 h4 hello q1 q2 question by blast
qed

text \<open>
  Claim C4: for a non-empty set of posts \<open>analyzeWithAI\<close> always returns a result,
  whatever the external score service and the providers do (answer, fail or throw) and
  whether or not the heuristic throws; when the heuristic is reached and throws, the
  result is the last fallback's, whose score and confidence are in range.
\<close>

theorem analyzeWithAI_always_returns:
  assumes "casts userData \<noteq> []"
  shows "\<exists>r. fst (analyzeWithAI rt env userData) = Returned r
    \<and> (fst (external_iq rt env userData) = None \<and> fst (openai_tier rt env) = None
        \<and> fst (gemini_tier rt env) = None \<and> heuristic_fault env
        \<longrightarrow> r = degraded (random_degraded env) (casts userData)
            \<and> in_range 55 145 (score r) \<and> in_range 0 100 (confidence r))"
proof -
  obtain td where td: "analyzeTopicDiversity rt (casts userData) = Returned td"
    using analyzeTopicDiversity_returns by blast
  show ?thesis
    using analyzeWithAI_fst [OF td, of env]
      degraded_in_range [of "random_degraded env" "casts userData"]
    by auto
qed

theorem analyzeWithAI_always_returns_witness:
  "casts hello_user \<noteq> []
   \<and> fst (external_iq example_runtime faulty_env hello_user) = None
   \<and> fst (openai_tier example_runtime faulty_env) = None
   \<and> fst (gemini_tier example_runtime faulty_env) = None \<and> heuristic_fault faulty_env
   \<and> fst (analyzeWithAI example_runtime faulty_env hello_user)
       = Returned \<lparr> score = Fin 85, analysis = FallbackText 1 5 85, confidence = Fin 42 \<rparr>"
proof -
  have h1: "casts hello_user \<noteq> []"
    by (simp add: hello_casts)
  have fault: "heuristic_fault faulty_env"
    by (simp add: faulty_env_def)
  have tiers: "fst (external_iq example_runtime faulty_env hello_user) = None"
      "fst (openai_tier example_runtime faulty_env) = None"
      "fst (gemini_tier example_runtime faulty_env) = None"
    by (simp_all add: hello_external faulty_tiers)
  have rnd: "random_degraded faulty_env = 1 / 2"
    by (simp add: faulty_env_def offline_env_def)
  show ?thesis
    using analyzeWithAI_always_returns [OF h1, of example_runtime faulty_env] h1 tiers fault
    by (auto simp: rnd hello_casts hello_degraded)
qed


section \<open>Properties of the route\<close>

lemma hasRecent_entry:
  "hasRecentIQScore st t f d \<Longrightarrow> \<exists>entry. iq_scores st f = Some entry"
  by (simp add: hasRecentIQScore_def split: option.splits)

text \<open>The route on a valid request without a recent score, and with one.\<close>

lemma POST_valid_miss:
  assumes "request env = Valid req" and "\<not> hasRecentIQScore st (now env) (fid req) 30"
  shows "POST rt env st =
     (let accounts = resolve_accounts env st req;
          posts = fetchUserCasts (casts_feed env);
          fetched = [CallHasRecentIQScore] @ snd accounts @ [CallFetchUserCasts];
          outcome = analyzeWithAI rt (world env)
             \<lparr> username = request_username req, displayName = request_displayName req,
               casts = posts, verifiedAccounts = fst accounts \<rparr>
      in if posts = [] then (no_posts, st, fetched)
         else (case fst outcome of
                 Threw \<Rightarrow> (failed, st, fetched @ snd outcome)
               | Returned result \<Rightarrow>
                   (Scored result ''api'' None,
                    if save_fails env then st else saveIQScoreToDatabase st (now env) (fid req) result,
                    fetched @ snd outcome @ [CallSaveIQScore])))"
  using assms
  by (simp add: POST_def cached_score_def Let_def split: prod.splits attempt.splits)

lemma POST_valid_hit:
  assumes "request env = Valid req" and "hasRecentIQScore st (now env) (fid req) 30"
    and "iq_scores st (fid req) = Some entry"
  shows "POST rt env st =
     (Scored \<lparr> score = entry_score entry, analysis = entry_analysis entry,
               confidence = entry_confidence entry \<rparr> ''database'' (Some (analyzedAt entry)),
      st, [CallHasRecentIQScore, CallGetIQScore])"
  using assms by (simp add: POST_def cached_score_def getIQScoreFromDatabase_def)

subsection \<open>The worked examples\<close>

lemma seven_request: "request seven_env = Valid seven_request"
  by (simp add: seven_env_def)

lemma seven_miss: "\<not> hasRecentIQScore empty_store (now seven_env) (fid seven_request) 30"
  by (simp add: hasRecentIQScore_def empty_store_def)

lemma seven_user:
  "\<lparr> username = request_username seven_request, displayName = request_displayName seven_request,
     casts = [hello_post],
     verifiedAccounts = fst (resolve_accounts env empty_store seven_request) \<rparr> = hello_user"
  by (simp add: seven_request_def resolve_accounts_def hello_user_def)

lemma seven_accounts: "snd (resolve_accounts env empty_store seven_request) = []"
  by (simp add: resolve_accounts_def seven_request_def)

lemma seven_fields:
  "world seven_env = transport_env" "now seven_env = 86401000" "fid seven_request = 7"
  "fetchUserCasts (casts_feed seven_env) = [hello_post]"
  by (simp_all add: seven_env_def seven_request_def fetchUserCasts_def)

lemma seven_fresh:
  "POST example_runtime seven_env empty_store =
     (Scored hello_result ''api'' None,
      saveIQScoreToDatabase empty_store 86401000 7 hello_result,
      [CallHasRecentIQScore, CallFetchUserCasts, CallOpenAI, CallGemini, CallSaveIQScore])"
proof -
  have "\<not> save_fails seven_env"
    by (simp add: seven_env_def)
  then show ?thesis
    unfolding POST_valid_miss [OF seven_request seven_miss] Let_def seven_fields seven_user
      seven_accounts hello_transport
    by simp
qed

subsection \<open>Claims about the route\<close>

text \<open>
  Claim C2: when the request is valid, the store holds no recent score of the account and
  the fetched set of posts is empty, the route answers with the error for missing posts
  (status 404); it answers with no score, and it leaves the store as it was.
\<close>

theorem empty_posts_no_content:
  assumes "request env = Valid req"
    and "\<not> hasRecentIQScore st (now env) (fid req) 30"
    and "fetchUserCasts (casts_feed env) = []"
  shows "fst (POST rt env st) = no_posts
    \<and> (\<forall>result source analyzed. fst (POST rt env st) \<noteq> Scored result source analyzed)
    \<and> fst (snd (POST rt env st)) = st"
  using assms by (simp add: POST_valid_miss Let_def no_posts_def)

theorem empty_posts_no_content_witness:
  "request empty_feed_env = Valid seven_request
   \<and> \<not> hasRecentIQScore empty_store (now empty_feed_env) (fid seven_request) 30
   \<and> fetchUserCasts (casts_feed empty_feed_env) = []
   \<and> fst (POST example_runtime empty_feed_env empty_store)
       = Refused 404 ''No posts found for analysis. Please ensure the user has public posts.''"
proof -
  have h1: "request empty_feed_env = Valid seven_request"
    by (simp add: empty_feed_env_def seven_env_def)
  have h2: "\<not> hasRecentIQScore empty_store (now empty_feed_env) (fid seven_request) 30"
    by (simp add: hasRecentIQScore_def empty_store_def)
  have h3: "fetchUserCasts (casts_feed empty_feed_env) = []"
    by (simp add: empty_feed_env_def fetchUserCasts_def)
  show ?thesis
    using empty_posts_no_content [OF h1 h2 h3, of example_runtime] h1 h2 h3
    by (simp add: no_posts_def)
qed

text \<open>
  Claim C5: when the request is valid and the store holds a score of the account whose
  age is at most 30 days, the route answers with that score (its source
  \<open>database\<close>), leaves the store as it was, and calls nothing but the two reads of the
  store: not the feed of posts, not a provider, not the external score service.
\<close>

theorem cache_hit_short_circuits:
  assumes "request env = Valid req"
    and "iq_scores st (fid req) = Some entry"
    and "now env - analyzedAt entry \<le> 30 * 86400000"
  shows "\<exists>calls.
      POST rt env st =
        (Scored \<lparr> score = entry_score entry, analysis = entry_analysis entry,
                  confidence = entry_confidence entry \<rparr> ''database'' (Some (analyzedAt entry)),
         st, calls)
    \<and> calls = [CallHasRecentIQScore, CallGetIQScore]
    \<and> CallFetchUserCasts \<notin> set calls \<and> CallOpenAI \<notin> set calls
    \<and> CallGemini \<notin> set calls \<and> CallIqChecker \<notin> set calls"
proof -
  have "hasRecentIQScore st (now env) (fid req) 30"
    using assms(2,3) by (simp add: hasRecentIQScore_def)
  then show ?thesis
    using POST_valid_hit [OF assms(1) _ assms(2)] by simp
qed

theorem cache_hit_short_circuits_witness:
  "request seven_env = Valid seven_request
   \<and> iq_scores seven_store (fid seven_request) = Some seven_entry
   \<and> now seven_env - analyzedAt seven_entry \<le> 30 * 86400000
   \<and> POST example_runtime seven_env seven_store
       = (Scored \<lparr> score = Fin 101, analysis = ProviderText (String (lit ''ok'')),
                   confidence = Fin 70 \<rparr> ''database'' (Some 1000),
          seven_store, [CallHasRecentIQScore, CallGetIQScore])"
proof -
  have h2: "iq_scores seven_store (fid seven_request) = Some seven_entry"
    by (simp add: seven_store_def seven_request_def)
  have h3: "now seven_env - analyzedAt seven_entry \<le> 30 * 86400000"
    by (simp add: seven_env_def seven_entry_def)
  have e: "entry_score seven_entry = Fin 101"
      "entry_analysis seven_entry = ProviderText (String (lit ''ok''))"
      "entry_confidence seven_entry = Fin 70" "analyzedAt seven_entry = 1000"
    by (simp_all add: seven_entry_def)
  show ?thesis
    using cache_hit_short_circuits [OF seven_request h2 h3, of example_runtime]
      seven_request h2 h3
    by (auto simp: e)
qed

text \<open>
  Claim C6, as stated: the source of the result names the tier that produced it, and is
  \<open>heuristic\<close> when both providers fail in transport. With both providers failing in
  transport the route answers with the heuristic's result, and its source is \<open>api\<close>.
\<close>

theorem source_is_api_counterexample:
  "fst (POST example_runtime seven_env empty_store) = Scored hello_result ''api'' None
   \<and> analysis hello_result = HeuristicText hello_report
   \<and> source_of (fst (POST example_runtime seven_env empty_store)) \<noteq> Some ''heuristic''"
  by (simp add: seven_fresh hello_result_def)

text \<open>
  Claim C6, amended: the source of a returned score names where the score came from, not
  the tier: it is \<open>database\<close> for a score read from the store (returned with its time of
  analysis and without fetching posts) and \<open>api\<close> for every score that
  \<open>analyzeWithAI\<close> has just computed, whichever tier produced it; in particular it
  is \<open>api\<close> when both providers fail in transport.
\<close>

theorem source_names_origin_not_tier:
  assumes "fst (POST rt env st) = Scored result source analyzed"
  shows "(source = ''database'' \<and> analyzed \<noteq> None
          \<and> CallFetchUserCasts \<notin> set (snd (snd (POST rt env st))))
       \<or> (source = ''api'' \<and> analyzed = None
          \<and> (\<exists>req. request env = Valid req
               \<and> fst (analyzeWithAI rt (world env)
                    \<lparr> username = request_username req, displayName = request_displayName req,
                      casts = fetchUserCasts (casts_feed env),
                      verifiedAccounts = fst (resolve_accounts env st req) \<rparr>) = Returned result))"
proof (cases "request env")
  case Unreadable
  with assms show ?thesis by (simp add: POST_def failed_def)
next
  case Invalid
  with assms show ?thesis by (simp add: POST_def)
next
  case (Valid req)
  show ?thesis
  proof (cases "hasRecentIQScore st (now env) (fid req) 30")
    case True
    then obtain entry where "iq_scores st (fid req) = Some entry"
      using hasRecent_entry by blast
    from POST_valid_hit [OF Valid True this, of rt] assms show ?thesis
      by auto
  next
    case False
    from POST_valid_miss [OF Valid False, of rt] assms Valid show ?thesis
      by (auto simp: Let_def no_posts_def failed_def split: if_splits attempt.splits)
  qed
qed

theorem source_names_origin_not_tier_witness:
  "fst (POST example_runtime seven_env empty_store) = Scored hello_result ''api'' None
   \<and> fst (POST example_runtime seven_env seven_store)
       = Scored \<lparr> score = Fin 101, analysis = ProviderText (String (lit ''ok'')),
                  confidence = Fin 70 \<rparr> ''database'' (Some 1000)
   \<and> CallFetchUserCasts \<notin> set (snd (snd (POST example_runtime seven_env seven_store)))"
proof -
  have fresh: "fst (POST example_runtime seven_env empty_store) = Scored hello_result ''api'' None"
    by (simp add: seven_fresh)
  have "iq_scores seven_store (fid seven_request) = Some seven_entry"
    by (simp add: seven_store_def seven_request_def)
  moreover have "hasRecentIQScore seven_store (now seven_env) (fid seven_request) 30"
    by (simp add: hasRecentIQScore_def seven_store_def seven_request_def seven_env_def
          seven_entry_def)
  ultimately have hit: "fst (POST example_runtime seven_env seven_store)
       = Scored \<lparr> score = Fin 101, analysis = ProviderText (String (lit ''ok'')),
                  confidence = Fin 70 \<rparr> ''database'' (Some 1000)"
    using POST_valid_hit [OF seven_request, of seven_store seven_entry example_runtime]
    by (simp add: seven_entry_def)
  show ?thesis
    using source_names_origin_not_tier [OF fresh] source_names_origin_not_tier [OF hit] fresh hit
    by simp
qed

text \<open>
  Claim C9: when the request is valid, no recent score is stored, posts were fetched and
  \<open>analyzeWithAI\<close> returned a result, a failing write of that result to the store does
  not fail the request: the route answers with the computed result, and the store is as
  it was.
\<close>

theorem save_failure_keeps_score:
  assumes "request env = Valid req"
    and "\<not> hasRecentIQScore st (now env) (fid req) 30"
    and "fetchUserCasts (casts_feed env) \<noteq> []"
    and "fst (analyzeWithAI rt (world env)
            \<lparr> username = request_username req, displayName = request_displayName req,
              casts = fetchUserCasts (casts_feed env),
              verifiedAccounts = fst (resolve_accounts env st req) \<rparr>) = Returned result"
    and "save_fails env"
  shows "fst (POST rt env st) = Scored result ''api'' None \<and> fst (snd (POST rt env st)) = st"
  using assms by (simp add: POST_valid_miss Let_def)

theorem save_failure_keeps_score_witness:
  "request failing_save_env = Valid seven_request
   \<and> \<not> hasRecentIQScore empty_store (now failing_save_env) (fid seven_request) 30
   \<and> fetchUserCasts (casts_feed failing_save_env) \<noteq> []
   \<and> save_fails failing_save_env
   \<and> fst (POST example_runtime failing_save_env empty_store) = Scored hello_result ''api'' None
   \<and> fst (snd (POST example_runtime failing_save_env empty_store)) = empty_store
   \<and> fst (POST example_runtime seven_env empty_store) = Scored hello_result ''api'' None"
proof -
  have h1: "request failing_save_env = Valid seven_request"
    by (simp add: failing_save_env_def seven_env_def)
  have h2: "\<not> hasRecentIQScore empty_store (now failing_save_env) (fid seven_request) 30"
    by (simp add: hasRecentIQScore_def empty_store_def)
  have f: "fetchUserCasts (casts_feed failing_save_env) = [hello_post]"
    by (simp add: failing_save_env_def seven_env_def fetchUserCasts_def)
  then have h3: "fetchUserCasts (casts_feed failing_save_env) \<noteq> []"
    by simp
  have w: "world failing_save_env = transport_env"
    by (simp add: failing_save_env_def seven_env_def)
  have h4: "fst (analyzeWithAI example_runtime (world failing_save_env)
            \<lparr> username = request_username seven_request,
              displayName = request_displayName seven_request,
              casts = fetchUserCasts (casts_feed failing_save_env),
              verifiedAccounts = fst (resolve_accounts failing_save_env empty_store seven_request) \<rparr>)
          = Returned hello_result"
    unfolding f w seven_user by (simp add: hello_transport)
  have h5: "save_fails failing_save_env"
    by (simp add: failing_save_env_def)
  show ?thesis
    using save_failure_keeps_score [OF h1 h2 h3 h4 h5] h1 h2 h3 h5
    by (simp add: seven_fresh)
qed

text \<open>
  Claim C10: when the request is valid and no recent score is stored, a failure of the
  request for the posts (the request throws, the response is not \<open>ok\<close>, or its body
  cannot be read) makes \<open>fetchUserCasts\<close> return the empty array, so the route
  answers with the error for missing posts; response, store and calls are the same as for
  an account whose feed is delivered empty.
\<close>

theorem fetch_failure_is_no_content:
  assumes "request env = Valid req"
    and "\<not> hasRecentIQScore st (now env) (fid req) 30"
    and "casts_feed env = Threw
       \<or> (\<exists>response. casts_feed env = Returned response \<and> (\<not> ok response \<or> json response = Threw))"
  shows "fetchUserCasts (casts_feed env) = []
    \<and> fst (POST rt env st) = no_posts
    \<and> POST rt env st
        = POST rt (env \<lparr> casts_feed := Returned \<lparr> ok = True, json = Returned (Some []) \<rparr> \<rparr>) st"
proof -
  let ?env = "env \<lparr> casts_feed := Returned \<lparr> ok = True, json = Returned (Some []) \<rparr> \<rparr>"
  have a: "fetchUserCasts (casts_feed env) = []"
    using assms(3) by (auto simp: fetchUserCasts_def)
  have b: "fetchUserCasts (casts_feed ?env) = []"
    by (simp add: fetchUserCasts_def)
  have c: "request ?env = Valid req" "\<not> hasRecentIQScore st (now ?env) (fid req) 30"
    using assms(1,2) by simp_all
  have d: "resolve_accounts ?env st req = resolve_accounts env st req"
    by (simp add: resolve_accounts_def split: option.splits)
  have "POST rt env st
      = (no_posts, st, [CallHasRecentIQScore] @ snd (resolve_accounts env st req) @ [CallFetchUserCasts])"
    using a by (simp add: POST_valid_miss [OF assms(1,2)] Let_def)
  moreover have "POST rt ?env st
      = (no_posts, st, [CallHasRecentIQScore] @ snd (resolve_accounts env st req) @ [CallFetchUserCasts])"
    using b d by (simp add: POST_valid_miss [OF c] Let_def)
  ultimately show ?thesis
    using a by simp
qed

theorem fetch_failure_is_no_content_witness:
  "request broken_feed_env = Valid seven_request
   \<and> \<not> hasRecentIQScore empty_store (now broken_feed_env) (fid seven_request) 30
   \<and> casts_feed broken_feed_env = Threw
   \<and> fst (POST example_runtime broken_feed_env empty_store)
       = Refused 404 ''No posts found for analysis. Please ensure the user has public posts.''
   \<and> POST example_runtime broken_feed_env empty_store
       = POST example_runtime empty_feed_env empty_store"
proof -
  have h1: "request broken_feed_env = Valid seven_request"
    by (simp add: broken_feed_env_def seven_env_def)
  have h2: "\<not> hasRecentIQScore empty_store (now broken_feed_env) (fid seven_request) 30"
    by (simp add: hasRecentIQScore_def empty_store_def)
  have h3: "casts_feed broken_feed_env = Threw"
    by (simp add: broken_feed_env_def)
  have e: "broken_feed_env \<lparr> casts_feed := Returned \<lparr> ok = True, json = Returned (Some []) \<rparr> \<rparr>
      = empty_feed_env"
    by (simp add: broken_feed_env_def empty_feed_env_def)
  have "casts_feed broken_feed_env = Threw
       \<or> (\<exists>response. casts_feed broken_feed_env = Returned response
            \<and> (\<not> ok response \<or> json response = Threw))"
    using h3 by simp
  from fetch_failure_is_no_content [OF h1 h2 this, of example_runtime]
  show ?thesis
    using h1 h2 h3 unfolding e no_posts_def by blast
qed


end
